theory Spec2Isabelle
  imports Main "HOL-Library.Word" "HOL-Library.Monad_Syntax"
begin

unbundle bit_operations_syntax

section \<open>The EPS attach procedure of the MME (NAS/EMM/Attach.c)\<close>

text \<open>
  A shallow embedding of Attach.c. Objects reached through C pointers live in explicit
  heaps (maps from addresses), a NULL pointer is \<open>None\<close>, and a dereference of a pointer
  whose object is gone makes the whole call \<open>None\<close> (undefined behaviour). Functions of
  other files (the EMM and ESM service access points, the common procedures, the MME API,
  the allocator) are fields of an environment record: each gives the value the call
  returns, and for the peers that run EMM code of their own also the state they leave.
  Every call that leaves the file is appended to a trace.
\<close>

subsection \<open>Constants of the missing headers\<close>

type_synonym ueid_t = "32 word"
type_synonym addr = nat

abbreviation (input) RETURNok :: int where "RETURNok \<equiv> 0"
abbreviation (input) RETURNerror :: int where "RETURNerror \<equiv> - 1"

abbreviation (input) NAS_TIMER_INACTIVE_ID :: int where "NAS_TIMER_INACTIVE_ID \<equiv> - 1"

abbreviation (input) ATTACH_COUNTER_MAX :: "32 word" where "ATTACH_COUNTER_MAX \<equiv> 5"

abbreviation (input) EMM_CAUSE_SUCCESS :: int where "EMM_CAUSE_SUCCESS \<equiv> - 1"
abbreviation (input) EMM_CAUSE_ILLEGAL_UE :: int where "EMM_CAUSE_ILLEGAL_UE \<equiv> 3"
abbreviation (input) EMM_CAUSE_IMEI_NOT_ACCEPTED :: int where "EMM_CAUSE_IMEI_NOT_ACCEPTED \<equiv> 5"
abbreviation (input) EMM_CAUSE_ESM_FAILURE :: int where "EMM_CAUSE_ESM_FAILURE \<equiv> 19"
abbreviation (input) EMM_CAUSE_PROTOCOL_ERROR :: int where "EMM_CAUSE_PROTOCOL_ERROR \<equiv> 111"

abbreviation (input) MME_API_EMERGENCY_ATTACH :: "32 word" where "MME_API_EMERGENCY_ATTACH \<equiv> 1"
abbreviation (input) MME_API_UNAUTHENTICATED_IMSI :: "32 word" where "MME_API_UNAUTHENTICATED_IMSI \<equiv> 2"

abbreviation (input) EMM_KSI_NOT_AVAILABLE :: int where "EMM_KSI_NOT_AVAILABLE \<equiv> 0"
abbreviation (input) NAS_SECURITY_ALGORITHMS_EEA0 :: "8 word" where "NAS_SECURITY_ALGORITHMS_EEA0 \<equiv> 0"
abbreviation (input) NAS_SECURITY_ALGORITHMS_EIA0 :: "8 word" where "NAS_SECURITY_ALGORITHMS_EIA0 \<equiv> 0"

datatype emm_proc_attach_type_t =
    EMM_ATTACH_TYPE_EPS
  | EMM_ATTACH_TYPE_IMSI
  | EMM_ATTACH_TYPE_EMERGENCY
  | EMM_ATTACH_TYPE_RESERVED

text \<open>
  Modelled from the spec: the enumeration of the FSM states is declared in emm_fsm.h,
  which is not among the sources; section 3 of the specification lists the values of
  \<open>fsm_status\<close> in this order, and the code compares them with \<open>>\<close>.
\<close>

datatype emm_fsm_state_t =
    EMM_INVALID
  | EMM_DEREGISTERED
  | EMM_REGISTERED_INITIATED
  | EMM_REGISTERED
  | EMM_DEREGISTERED_INITIATED
  | EMM_COMMON_PROCEDURE_INITIATED

fun fsm_rank :: "emm_fsm_state_t \<Rightarrow> nat" where
  "fsm_rank EMM_INVALID = 0"
| "fsm_rank EMM_DEREGISTERED = 1"
| "fsm_rank EMM_REGISTERED_INITIATED = 2"
| "fsm_rank EMM_REGISTERED = 3"
| "fsm_rank EMM_DEREGISTERED_INITIATED = 4"
| "fsm_rank EMM_COMMON_PROCEDURE_INITIATED = 5"

subsection \<open>Structures\<close>

text \<open>An OctetString is a length and a pointer to the octets (\<open>None\<close> for NULL).\<close>

record OctetString =
  os_length :: "32 word"
  os_value :: "8 word list option"

definition os_empty :: OctetString where
  "os_empty = \<lparr>os_length = 0, os_value = None\<rparr>"

text \<open>\<open>malloc (n)\<close> followed by \<open>memcpy\<close> of \<open>n\<close> octets from \<open>src\<close>.\<close>

definition os_copy :: "32 word \<Rightarrow> OctetString \<Rightarrow> 8 word list" where
  "os_copy n src = take (unat n) (case os_value src of None \<Rightarrow> [] | Some bs \<Rightarrow> bs)"

record plmn_t =
  MCCdigit1 :: "4 word"
  MCCdigit2 :: "4 word"
  MCCdigit3 :: "4 word"
  MNCdigit1 :: "4 word"
  MNCdigit2 :: "4 word"
  MNCdigit3 :: "4 word"

record gummei_t =
  plmn :: plmn_t
  MMEgid :: "16 word"
  MMEcode :: "8 word"

record GUTI_t =
  gummei :: gummei_t
  m_tmsi :: "32 word"

text \<open>The GUTI that \<open>calloc\<close> returns: every octet zero.\<close>

definition zero_guti :: GUTI_t where
  "zero_guti =
     \<lparr>gummei = \<lparr>plmn = \<lparr>MCCdigit1 = 0, MCCdigit2 = 0, MCCdigit3 = 0,
                          MNCdigit1 = 0, MNCdigit2 = 0, MNCdigit3 = 0\<rparr>,
                 MMEgid = 0, MMEcode = 0\<rparr>,
      m_tmsi = 0\<rparr>"

text \<open>
  An IMSI: the length octet, the six leading digits the code reads by name
  (\<open>u.num.digit1\<close> to \<open>u.num.digit6\<close>) and the remaining octets. \<open>memcmp\<close> over the whole
  structure is equality of the record.
\<close>

record imsi_t =
  imsi_length :: "8 word"
  digit1 :: "4 word"
  digit2 :: "4 word"
  digit3 :: "4 word"
  digit4 :: "4 word"
  digit5 :: "4 word"
  digit6 :: "4 word"
  digits_rest :: "8 word list"

type_synonym imei_t = "8 word list"
type_synonym auth_vector_t = "8 word list"

record tai_t =
  tai_plmn :: plmn_t
  tai_tac :: "16 word"

record nas_timer_t =
  timer_id :: int
  timer_sec :: int

record selected_algorithms_t =
  encryption :: "8 word"
  integrity :: "8 word"

record emm_security_context_t =
  sc_type :: int
  kasme :: OctetString
  knas_enc :: OctetString
  knas_int :: OctetString
  selected_algorithms :: selected_algorithms_t

text \<open>The security context after \<open>memset (security, 0, ...)\<close>.\<close>

definition zero_security :: emm_security_context_t where
  "zero_security =
     \<lparr>sc_type = 0, kasme = os_empty, knas_enc = os_empty, knas_int = os_empty,
      selected_algorithms = \<lparr>encryption = 0, integrity = 0\<rparr>\<rparr>"

record emm_data_context_t =
  ueid :: ueid_t
  is_dynamic :: bool
  is_attached :: bool
  is_emergency :: bool
  imsi :: "imsi_t option"
  imei :: "imei_t option"
  guti_is_new :: bool
  guti :: "GUTI_t option"
  old_guti :: "GUTI_t option"
  n_tacs :: int
  tac :: "16 word"
  ksi :: int
  eea :: int
  eia :: int
  ucs2 :: int
  uea :: int
  uia :: int
  gea :: int
  umts_present :: int
  gprs_present :: int
  vector :: auth_vector_t
  security :: "emm_security_context_t option"
  esm_msg :: OctetString
  emm_cause :: int
  emm_fsm_status :: emm_fsm_state_t
  T3450 :: nas_timer_t
  T3460 :: nas_timer_t
  T3470 :: nas_timer_t

text \<open>A context after \<open>memset (&ue_ctx, 0, ...)\<close> or \<open>calloc\<close>: every field zero.\<close>

definition zero_ctx :: emm_data_context_t where
  "zero_ctx =
     \<lparr>ueid = 0, is_dynamic = False, is_attached = False, is_emergency = False,
      imsi = None, imei = None, guti_is_new = False, guti = None, old_guti = None,
      n_tacs = 0, tac = 0, ksi = 0, eea = 0, eia = 0, ucs2 = 0, uea = 0, uia = 0, gea = 0,
      umts_present = 0, gprs_present = 0, vector = [], security = None,
      esm_msg = os_empty, emm_cause = 0, emm_fsm_status = EMM_INVALID,
      T3450 = \<lparr>timer_id = 0, timer_sec = 0\<rparr>,
      T3460 = \<lparr>timer_id = 0, timer_sec = 0\<rparr>,
      T3470 = \<lparr>timer_id = 0, timer_sec = 0\<rparr>\<rparr>"

text \<open>The retransmission data bound to timer T3450 (\<open>attach_data_t\<close>).\<close>

record attach_data_t =
  ad_ueid :: ueid_t
  retransmission_count :: "32 word"
  ad_esm_msg :: OctetString

definition zero_attach_data :: attach_data_t where
  "zero_attach_data = \<lparr>ad_ueid = 0, retransmission_count = 0, ad_esm_msg = os_empty\<rparr>"

text \<open>The parameters of \<open>emm_proc_attach_request\<close>, one field for each.\<close>

record attach_request_t =
  rq_ueid :: ueid_t
  rq_type :: emm_proc_attach_type_t
  rq_is_native_ksi :: bool
  rq_ksi :: int
  rq_is_native_guti :: bool
  rq_guti :: "GUTI_t option"
  rq_imsi :: "imsi_t option"
  rq_imei :: "imei_t option"
  rq_tai :: "tai_t option"
  rq_eea :: int
  rq_eia :: int
  rq_ucs2 :: int
  rq_uea :: int
  rq_uia :: int
  rq_gea :: int
  rq_umts_present :: int
  rq_gprs_present :: int
  rq_esm_msg :: OctetString

subsection \<open>Primitives and the trace\<close>

record emm_as_establish_cnf_t =
  cnf_ueid :: ueid_t
  cnf_UEid_guti :: "GUTI_t option"
  cnf_new_guti :: "GUTI_t option"
  cnf_n_tacs :: int
  cnf_tac :: "16 word"
  cnf_sctx :: "emm_security_context_t option"
  cnf_encryption :: "8 word"
  cnf_integrity :: "8 word"
  cnf_NASmsg :: OctetString

text \<open>
  The primitives handed to \<open>emm_sap_send\<close>, each with the fields the code sets. The
  EMMREG primitives carry the UE identifier and the context pointer; EMMAS_ESTABLISH_REJ
  carries the UE identifier, the EMM cause, the NAS message and the security context.
\<close>

datatype emm_sap_t =
    EMMREG_PROC_ABORT ueid_t "addr option"
  | EMMREG_ATTACH_CNF ueid_t "addr option"
  | EMMREG_ATTACH_REJ ueid_t "addr option"
  | EMMREG_COMMON_PROC_REQ ueid_t
  | EMMAS_ESTABLISH_CNF emm_as_establish_cnf_t
  | EMMAS_ESTABLISH_REJ ueid_t int OctetString "emm_security_context_t option"

datatype esm_primitive_t =
    ESM_PDN_CONNECTIVITY_REQ
  | ESM_PDN_CONNECTIVITY_REJ
  | ESM_DEFAULT_EPS_BEARER_CONTEXT_ACTIVATE_CNF

text \<open>
  An indeterminate value of the enumeration that is none of SUCCESS and DISCARDED takes
  the same branches as FAILED: the code only compares with those two.
\<close>

datatype esm_sap_error_t = ESM_SAP_SUCCESS | ESM_SAP_DISCARDED | ESM_SAP_FAILED

record esm_sap_t =
  esm_primitive :: esm_primitive_t
  esm_ueid :: ueid_t
  esm_ctx :: "addr option"
  esm_recv :: "OctetString option"

datatype event =
    EMM_SAP_SEND emm_sap_t
  | ESM_SAP_SEND esm_sap_t
  | NAS_TIMER_START int addr
  | NAS_TIMER_STOP int
  | NAS_TIMER_RESTART int
  | MME_API_NOTIFY_UE_ID_CHANGED ueid_t ueid_t
  | MME_API_NOTIFY_NEW_GUTI ueid_t "GUTI_t option"
  | MME_API_IDENTIFY_IMSI imsi_t
  | MME_API_IDENTIFY_GUTI GUTI_t
  | MME_API_IDENTIFY_IMEI imei_t
  | MME_API_NEW_GUTI "imsi_t option"
  | NAS_ITTI_AUTH_INFO_REQ ueid_t imsi_t
  | EMM_PROC_IDENTIFICATION ueid_t
  | EMM_PROC_AUTHENTICATION ueid_t
  | EMM_PROC_SECURITY_MODE_CONTROL ueid_t
  | EMM_PROC_COMMON_INITIALIZE ueid_t addr
  | EMM_DATA_CONTEXT_REMOVE addr
  | EMM_DATA_CONTEXT_ADD addr

subsection \<open>The state\<close>

text \<open>
  \<open>ctx_heap\<close> and \<open>data_heap\<close> hold the allocated contexts and retransmission buffers;
  \<open>ctx_coll_ue_id\<close> is the context store keyed by UE identifier (the hash table of the
  EPC build, the array \<open>_emm_data.ctx\<close> otherwise), \<open>ctx_coll_guti\<close> the table from GUTI
  to UE identifier, \<open>common_args\<close> the argument registered for the ongoing common
  procedure of a UE.
\<close>

record nas_state =
  ctx_heap :: "addr \<rightharpoonup> emm_data_context_t"
  data_heap :: "addr \<rightharpoonup> attach_data_t"
  ctx_coll_ue_id :: "ueid_t \<rightharpoonup> addr"
  ctx_coll_guti :: "GUTI_t \<rightharpoonup> ueid_t"
  common_args :: "ueid_t \<rightharpoonup> addr"
  trace :: "event list"

datatype alloc_site = ALLOC_GUTI | ALLOC_NEW_GUTI | ALLOC_IMSI | ALLOC_IMEI | ALLOC_ESM_MSG
  | ALLOC_SECURITY | ALLOC_DATA_ESM_MSG | ALLOC_REJECT_ESM_MSG

text \<open>
  The environment: the macros and constants this file takes from headers that are not
  among the sources, the configuration, and the functions of other files. A peer that
  runs EMM code of its own (\<open>emm_sap_send\<close>, \<open>esm_sap_send\<close>, the three common
  procedures) has a return code and an effect on the state; the other functions only
  return values. \<open>indeterminate_rc\<close> and \<open>indeterminate_err\<close> are what an automatic
  variable holds when it is read before it was written.
\<close>

record env_t =
  NAS_BUILT_IN_EPC :: bool
  ORIGINAL_CODE :: bool
  EMM_DATA_NB_UE_MAX :: "32 word"
  T3450_DEFAULT_VALUE :: int
  T3460_DEFAULT_VALUE :: int
  T3470_DEFAULT_VALUE :: int
  conf_features :: "32 word"
  gummei_plmn_tac_0 :: "16 word"
  gummei_mmec_0 :: "8 word"
  gummei_mme_gid_0 :: "16 word"
  mme_config_find_mnc_length ::
    "4 word \<Rightarrow> 4 word \<Rightarrow> 4 word \<Rightarrow> 4 word \<Rightarrow> 4 word \<Rightarrow> 4 word \<Rightarrow> int"
  mme_api_identify_imsi :: "imsi_t \<Rightarrow> int \<times> auth_vector_t"
  mme_api_identify_guti :: "GUTI_t \<Rightarrow> int \<times> auth_vector_t"
  mme_api_identify_imei :: "imei_t \<Rightarrow> int \<times> auth_vector_t"
  mme_api_new_guti :: "imsi_t option \<Rightarrow> int \<times> GUTI_t \<times> 16 word \<times> int"
  emm_sap_rc :: "emm_sap_t \<Rightarrow> nas_state \<Rightarrow> int"
  emm_sap_eff :: "emm_sap_t \<Rightarrow> nas_state \<Rightarrow> nas_state"
  esm_sap_rc :: "esm_sap_t \<Rightarrow> nas_state \<Rightarrow> int"
  esm_sap_err :: "esm_sap_t \<Rightarrow> nas_state \<Rightarrow> esm_sap_error_t"
  esm_sap_out :: "esm_sap_t \<Rightarrow> nas_state \<Rightarrow> OctetString"
  esm_sap_eff :: "esm_sap_t \<Rightarrow> nas_state \<Rightarrow> nas_state"
  common_proc_rc :: "event \<Rightarrow> nas_state \<Rightarrow> int"
  common_proc_eff :: "event \<Rightarrow> nas_state \<Rightarrow> nas_state"
  common_initialize_rc :: "ueid_t \<Rightarrow> int"
  nas_timer_start_id :: "int \<Rightarrow> addr \<Rightarrow> int"
  malloc_ok :: "alloc_site \<Rightarrow> bool"
  calloc_ctx :: "nas_state \<Rightarrow> addr option"
  calloc_data :: "nas_state \<Rightarrow> addr option"
  indeterminate_rc :: int
  indeterminate_err :: esm_sap_error_t

subsection \<open>Calls that leave the file\<close>

definition log_event :: "event \<Rightarrow> nas_state \<Rightarrow> nas_state" where
  "log_event e s = s\<lparr>trace := trace s @ [e]\<rparr>"

text \<open>
  A peer is called with the state as it is, may change it, and returns its code; the
  trace is the caller's, extended by the call.
\<close>

definition emm_sap_send :: "env_t \<Rightarrow> emm_sap_t \<Rightarrow> nas_state \<Rightarrow> int \<times> nas_state" where
  "emm_sap_send env sap s =
     (emm_sap_rc env sap s, (emm_sap_eff env sap s)\<lparr>trace := trace s @ [EMM_SAP_SEND sap]\<rparr>)"

definition esm_sap_send ::
  "env_t \<Rightarrow> esm_sap_t \<Rightarrow> nas_state \<Rightarrow> (int \<times> esm_sap_error_t \<times> OctetString) \<times> nas_state" where
  "esm_sap_send env sap s =
     ((esm_sap_rc env sap s, esm_sap_err env sap s, esm_sap_out env sap s),
      (esm_sap_eff env sap s)\<lparr>trace := trace s @ [ESM_SAP_SEND sap]\<rparr>)"

text \<open>
  \<open>emm_proc_identification\<close>, \<open>emm_proc_authentication\<close> and
  \<open>emm_proc_security_mode_control\<close>: the call is named by its event.
\<close>

definition common_proc :: "env_t \<Rightarrow> event \<Rightarrow> nas_state \<Rightarrow> int \<times> nas_state" where
  "common_proc env ev s =
     (common_proc_rc env ev s, (common_proc_eff env ev s)\<lparr>trace := trace s @ [ev]\<rparr>)"

text \<open>
  Modelled from the spec: \<open>emm_proc_common_initialize\<close> and \<open>emm_proc_common_get_args\<close>
  belong to EmmCommon.c, which is not among the sources. Section 4.4 has the buffer
  registered with the common-procedure dispatcher and retrieved from that registry; the
  registration fails when the environment says so.
\<close>

definition emm_proc_common_initialize ::
  "env_t \<Rightarrow> nas_state \<Rightarrow> ueid_t \<Rightarrow> addr \<Rightarrow> int \<times> nas_state" where
  "emm_proc_common_initialize env s u d =
     (let rc = common_initialize_rc env u;
          s1 = log_event (EMM_PROC_COMMON_INITIALIZE u d) s
      in if rc = RETURNok then (rc, s1\<lparr>common_args := (common_args s1)(u \<mapsto> d)\<rparr>)
         else (rc, s1))"

definition emm_proc_common_get_args :: "nas_state \<Rightarrow> ueid_t \<Rightarrow> addr option" where
  "emm_proc_common_get_args s u = common_args s u"

text \<open>
  Modelled from the spec: the timer service is not among the sources. Section 4.2:
  \<open>stop (id)\<close> returns the inactive identifier, \<open>restart (id)\<close> returns \<open>id\<close>, \<open>start\<close>
  returns an identifier (here the environment's).
\<close>

definition nas_timer_stop :: "int \<Rightarrow> int \<times> event list" where
  "nas_timer_stop tid = (NAS_TIMER_INACTIVE_ID, [NAS_TIMER_STOP tid])"

definition nas_timer_restart :: "int \<Rightarrow> int \<times> event list" where
  "nas_timer_restart tid = (tid, [NAS_TIMER_RESTART tid])"

definition nas_timer_start :: "env_t \<Rightarrow> int \<Rightarrow> addr \<Rightarrow> int \<times> event list" where
  "nas_timer_start env sec d = (nas_timer_start_id env sec d, [NAS_TIMER_START sec d])"

text \<open>The guarded stop of release and abort: \<open>if (T.id != NAS_TIMER_INACTIVE_ID) T.id = nas_timer_stop (T.id)\<close>.\<close>

definition stop_timer :: "nas_timer_t \<Rightarrow> nas_timer_t \<times> event list" where
  "stop_timer t =
     (if timer_id t \<noteq> NAS_TIMER_INACTIVE_ID
      then (t\<lparr>timer_id := fst (nas_timer_stop (timer_id t))\<rparr>, snd (nas_timer_stop (timer_id t)))
      else (t, []))"

text \<open>
  Modelled from the spec: the context store (emm_data_ctx.c) is not among the sources.
  Section 4.1: \<open>insert\<close> is a no-op if a context with that UE identifier already exists;
  \<open>remove\<close> drops the index entries of the context; an entry is in the GUTI index iff the
  context has a GUTI. The context object itself outlives \<open>remove\<close>: the rebinding code of
  \<open>emm_proc_attach_request\<close> writes \<open>temp->ueid\<close> and inserts \<open>temp\<close> after removing it.
\<close>

definition emm_data_context_get :: "nas_state \<Rightarrow> ueid_t \<Rightarrow> addr option" where
  "emm_data_context_get s u = ctx_coll_ue_id s u"

definition emm_data_context_get_by_guti :: "nas_state \<Rightarrow> GUTI_t \<Rightarrow> addr option" where
  "emm_data_context_get_by_guti s g =
     (case ctx_coll_guti s g of None \<Rightarrow> None | Some u \<Rightarrow> ctx_coll_ue_id s u)"

definition emm_data_context_remove :: "nas_state \<Rightarrow> addr \<Rightarrow> nas_state option" where
  "emm_data_context_remove s a =
     (case ctx_heap s a of
        None \<Rightarrow> None
      | Some c \<Rightarrow>
          Some (log_event (EMM_DATA_CONTEXT_REMOVE a)
            (s\<lparr>ctx_coll_ue_id := (ctx_coll_ue_id s)(ueid c := None),
               ctx_coll_guti :=
                 (case guti c of None \<Rightarrow> ctx_coll_guti s
                  | Some g \<Rightarrow> (ctx_coll_guti s)(g := None))\<rparr>)))"

definition emm_data_context_add :: "nas_state \<Rightarrow> addr \<Rightarrow> nas_state option" where
  "emm_data_context_add s a =
     (case ctx_heap s a of
        None \<Rightarrow> None
      | Some c \<Rightarrow>
          Some (log_event (EMM_DATA_CONTEXT_ADD a)
            (if ctx_coll_ue_id s (ueid c) \<noteq> None then s
             else s\<lparr>ctx_coll_ue_id := (ctx_coll_ue_id s)(ueid c \<mapsto> a),
                    ctx_coll_guti :=
                      (case guti c of None \<Rightarrow> ctx_coll_guti s
                       | Some g \<Rightarrow> (ctx_coll_guti s)(g \<mapsto> ueid c))\<rparr>)))"

text \<open>
  The lookup the handlers make: \<open>emm_data_context_get\<close> in the EPC build, the array
  element \<open>_emm_data.ctx[ueid]\<close> otherwise (undefined beyond the array).
\<close>

definition ctx_of_ueid :: "env_t \<Rightarrow> nas_state \<Rightarrow> ueid_t \<Rightarrow> addr option option" where
  "ctx_of_ueid env s u =
     (if NAS_BUILT_IN_EPC env then Some (emm_data_context_get s u)
      else if u < EMM_DATA_NB_UE_MAX env then Some (ctx_coll_ue_id s u)
      else None)"

subsection \<open>Abnormal cases: release, reject, abort\<close>

text \<open>The part of \<open>_emm_attach_release\<close> that clears the context (lines 715 to 788).\<close>

definition release_ctx_data :: "emm_data_context_t \<Rightarrow> emm_data_context_t \<times> event list" where
  "release_ctx_data c =
     (let c1 = c\<lparr>guti := None, imsi := None, imei := None\<rparr>;
          c2 = (if 0 < os_length (esm_msg c1)
                then c1\<lparr>esm_msg := (esm_msg c1)\<lparr>os_value := None\<rparr>\<rparr> else c1);
          c3 = c2\<lparr>security := None\<rparr>;
          t1 = stop_timer (T3450 c3);
          t2 = stop_timer (T3460 c3);
          t3 = stop_timer (T3470 c3)
      in (c3\<lparr>T3450 := fst t1, T3460 := fst t2, T3470 := fst t3\<rparr>, snd t1 @ snd t2 @ snd t3))"

text \<open>
  The release of the context itself (lines 793 to 798): \<open>emm_data_context_remove\<close> in the
  EPC build; otherwise \<open>free (_emm_data.ctx[ueid])\<close> and the array element set to NULL.
\<close>

definition release_ctx_store :: "env_t \<Rightarrow> nas_state \<Rightarrow> addr \<Rightarrow> ueid_t \<Rightarrow> nas_state option" where
  "release_ctx_store env s a u =
     (if NAS_BUILT_IN_EPC env then emm_data_context_remove s a
      else if u < EMM_DATA_NB_UE_MAX env then
        Some (s\<lparr>ctx_heap :=
                   (case ctx_coll_ue_id s u of None \<Rightarrow> ctx_heap s
                    | Some b \<Rightarrow> (ctx_heap s)(b := None)),
                 ctx_coll_ue_id := (ctx_coll_ue_id s)(u := None)\<rparr>)
      else None)"

definition emm_attach_release ::
  "env_t \<Rightarrow> nas_state \<Rightarrow> addr option \<Rightarrow> (int \<times> nas_state) option" where
  "emm_attach_release env s args =
     (case args of
        None \<Rightarrow> Some (RETURNerror, s)
      | Some a \<Rightarrow>
          (case ctx_heap s a of
             None \<Rightarrow> None
           | Some c \<Rightarrow>
               (let u = ueid c;
                    cd = release_ctx_data c;
                    s1 = s\<lparr>ctx_heap := (ctx_heap s)(a \<mapsto> fst cd), trace := trace s @ snd cd\<rparr>
                in case release_ctx_store env s1 a u of
                     None \<Rightarrow> None
                   | Some s2 \<Rightarrow> Some (emm_sap_send env (EMMREG_PROC_ABORT u (Some a)) s2))))"

text \<open>
  The argument of \<open>_emm_attach_reject\<close> is either a context of the heap or the automatic
  variable \<open>ue_ctx\<close> of its caller, which dies when the caller returns and is passed here
  by value. An automatic context is never dynamic (both callers clear \<open>is_dynamic\<close>), so
  its release is not modelled.
\<close>

datatype ctx_ptr = Auto emm_data_context_t | Dyn addr

definition load_ctx :: "nas_state \<Rightarrow> ctx_ptr \<Rightarrow> emm_data_context_t option" where
  "load_ctx s p = (case p of Auto c \<Rightarrow> Some c | Dyn a \<Rightarrow> ctx_heap s a)"

definition store_ctx :: "nas_state \<Rightarrow> ctx_ptr \<Rightarrow> emm_data_context_t \<Rightarrow> nas_state" where
  "store_ctx s p c = (case p of Auto _ \<Rightarrow> s | Dyn a \<Rightarrow> s\<lparr>ctx_heap := (ctx_heap s)(a \<mapsto> c)\<rparr>)"

definition emm_attach_reject ::
  "env_t \<Rightarrow> nas_state \<Rightarrow> ctx_ptr option \<Rightarrow> (int \<times> nas_state) option" where
  "emm_attach_reject env s args =
     (case args of
        None \<Rightarrow> Some (RETURNerror, s)
      | Some p \<Rightarrow>
          (case load_ctx s p of
             None \<Rightarrow> None
           | Some c \<Rightarrow>
               (let c1 = (if emm_cause c = EMM_CAUSE_SUCCESS
                          then c\<lparr>emm_cause := EMM_CAUSE_ILLEGAL_UE\<rparr> else c);
                    s1 = store_ctx s p c1
                in if emm_cause c1 = EMM_CAUSE_ESM_FAILURE \<and> \<not> 0 < os_length (esm_msg c1)
                   then Some (RETURNerror, s1)
                   else
                     (let NASmsg = (if emm_cause c1 \<noteq> EMM_CAUSE_ESM_FAILURE then os_empty
                                    else esm_msg c1);
                          r = emm_sap_send env
                                (EMMAS_ESTABLISH_REJ (ueid c1) (emm_cause c1) NASmsg (security c1)) s1
                      in case p of
                           Auto _ \<Rightarrow> if is_dynamic c1 then None else Some r
                         | Dyn a \<Rightarrow>
                             (case ctx_heap (snd r) a of
                                None \<Rightarrow> None
                              | Some c2 \<Rightarrow>
                                  if is_dynamic c2 then emm_attach_release env (snd r) (Some a)
                                  else Some r)))))"

definition emm_attach_abort ::
  "env_t \<Rightarrow> nas_state \<Rightarrow> addr option \<Rightarrow> (int \<times> nas_state) option" where
  "emm_attach_abort env s args =
     (case args of
        None \<Rightarrow> Some (RETURNerror, s)
      | Some d \<Rightarrow>
          do {
            dat \<leftarrow> data_heap s d;
            let u = ad_ueid dat;
            ctx \<leftarrow> ctx_of_ueid env s u;
            s1 \<leftarrow> (case ctx of
                     None \<Rightarrow> Some s
                   | Some a \<Rightarrow>
                       (case ctx_heap s a of
                          None \<Rightarrow> None
                        | Some c \<Rightarrow>
                            Some (s\<lparr>ctx_heap := (ctx_heap s)(a \<mapsto> c\<lparr>T3450 := fst (stop_timer (T3450 c))\<rparr>),
                                    trace := trace s @ snd (stop_timer (T3450 c))\<rparr>)));
            let s2 = s1\<lparr>data_heap := (data_heap s1)(d := None)\<rparr>;
            let r = esm_sap_send env
                      \<lparr>esm_primitive = ESM_PDN_CONNECTIVITY_REJ, esm_ueid = u, esm_ctx = ctx,
                       esm_recv = None\<rparr> s2;
            if fst (fst r) \<noteq> RETURNerror then
              (let r2 = emm_sap_send env (EMMREG_ATTACH_REJ u ctx) (snd r)
               in if fst r2 \<noteq> RETURNerror then emm_attach_release env (snd r2) ctx
                  else Some r2)
            else Some (fst (fst r), snd r)
          })"

subsection \<open>ATTACH ACCEPT and timer T3450\<close>

text \<open>
  \<open>_emm_attach_accept\<close>. With a NULL context nothing is sent and the automatic \<open>rc\<close> is
  returned as it is; \<open>emm_ctx->security->selected_algorithms\<close> is read without a check.
\<close>

definition emm_attach_accept ::
  "env_t \<Rightarrow> nas_state \<Rightarrow> addr option \<Rightarrow> addr \<Rightarrow> (int \<times> nas_state) option" where
  "emm_attach_accept env s emm_ctx d =
     (case emm_ctx of
        None \<Rightarrow> Some (indeterminate_rc env, s)
      | Some a \<Rightarrow>
          do {
            c \<leftarrow> ctx_heap s a;
            let s1 = log_event (MME_API_NOTIFY_NEW_GUTI (ueid c) (guti c)) s;
            sec \<leftarrow> security c;
            dat \<leftarrow> data_heap s1 d;
            let sap = EMMAS_ESTABLISH_CNF
                  \<lparr>cnf_ueid = ueid c,
                   cnf_UEid_guti = (if guti_is_new c \<and> old_guti c \<noteq> None then old_guti c
                                    else guti c),
                   cnf_new_guti = guti c,
                   cnf_n_tacs = n_tacs c,
                   cnf_tac = tac c,
                   cnf_sctx = security c,
                   cnf_encryption = encryption (selected_algorithms sec),
                   cnf_integrity = integrity (selected_algorithms sec),
                   cnf_NASmsg = ad_esm_msg dat\<rparr>;
            let r = emm_sap_send env sap s1;
            if fst r \<noteq> RETURNerror then
              do {
                c2 \<leftarrow> ctx_heap (snd r) a;
                let t = (if timer_id (T3450 c2) \<noteq> NAS_TIMER_INACTIVE_ID
                         then nas_timer_restart (timer_id (T3450 c2))
                         else nas_timer_start env (timer_sec (T3450 c2)) d);
                Some (fst r,
                  (snd r)\<lparr>ctx_heap := (ctx_heap (snd r))(a \<mapsto> c2\<lparr>T3450 := (T3450 c2)\<lparr>timer_id := fst t\<rparr>\<rparr>),
                          trace := trace (snd r) @ snd t\<rparr>)
              }
            else Some r
          })"

text \<open>\<open>_emm_attach_t3450_handler\<close>: the handler returns NULL, the model the state it leaves.\<close>

definition emm_attach_t3450_handler :: "env_t \<Rightarrow> nas_state \<Rightarrow> addr \<Rightarrow> nas_state option" where
  "emm_attach_t3450_handler env s d =
     do {
       dat \<leftarrow> data_heap s d;
       let dat1 = dat\<lparr>retransmission_count := retransmission_count dat + 1\<rparr>;
       let s1 = s\<lparr>data_heap := (data_heap s)(d \<mapsto> dat1)\<rparr>;
       emm_ctx \<leftarrow> ctx_of_ueid env s1 (ad_ueid dat1);
       r \<leftarrow> (if retransmission_count dat1 < ATTACH_COUNTER_MAX
              then emm_attach_accept env s1 emm_ctx d
              else emm_attach_abort env s1 (Some d));
       Some (snd r)
     }"

text \<open>\<open>n\<close> expiries of T3450 in a row, each calling the handler with the bound buffer.\<close>

fun t3450_expiries :: "env_t \<Rightarrow> nat \<Rightarrow> nas_state \<Rightarrow> addr \<Rightarrow> nas_state option" where
  "t3450_expiries env 0 s d = Some s"
| "t3450_expiries env (Suc n) s d =
     (case t3450_expiries env n s d of
        None \<Rightarrow> None
      | Some s1 \<Rightarrow> emm_attach_t3450_handler env s1 d)"

subsection \<open>The attach proper and the common procedures\<close>

text \<open>The end of \<open>_emm_attach\<close> (lines 1413 to 1425): a failure is answered by a reject.\<close>

definition emm_attach_failed ::
  "env_t \<Rightarrow> addr \<Rightarrow> int \<times> nas_state \<Rightarrow> (int \<times> nas_state) option" where
  "emm_attach_failed env a r =
     (if fst r \<noteq> RETURNok then
        (case ctx_heap (snd r) a of
           None \<Rightarrow> None
         | Some c \<Rightarrow>
             emm_attach_reject env
               ((snd r)\<lparr>ctx_heap := (ctx_heap (snd r))(a \<mapsto> c\<lparr>emm_cause := EMM_CAUSE_PROTOCOL_ERROR\<rparr>)\<rparr>)
               (Some (Dyn a)))
      else Some r)"

text \<open>
  The accepted branch of \<open>_emm_attach\<close> once the buffer \<open>d\<close> is allocated and registered
  (lines 1336 to 1377); \<open>out\<close> is \<open>esm_sap.send\<close>.
\<close>

definition emm_attach_accepted ::
  "env_t \<Rightarrow> nas_state \<Rightarrow> addr \<Rightarrow> addr \<Rightarrow> OctetString \<Rightarrow> (int \<times> nas_state) option" where
  "emm_attach_accepted env s a d out =
     do {
       c \<leftarrow> ctx_heap s a;
       dat \<leftarrow> data_heap s d;
       let dat1 = dat\<lparr>ad_ueid := ueid c, retransmission_count := 0\<rparr>;
       if ORIGINAL_CODE env then
         do {
           let dat2 = dat1\<lparr>ad_esm_msg :=
                 (if malloc_ok env ALLOC_DATA_ESM_MSG
                  then \<lparr>os_length = os_length out, os_value = Some (os_copy (os_length out) out)\<rparr>
                  else \<lparr>os_length = 0, os_value = None\<rparr>)\<rparr>;
           let s1 = s\<lparr>data_heap := (data_heap s)(d \<mapsto> dat2)\<rparr>;
           r \<leftarrow> emm_attach_accept env s1 (Some a) d;
           if fst r \<noteq> RETURNerror then
             do {
               c2 \<leftarrow> ctx_heap (snd r) a;
               if guti_is_new c2 \<and> old_guti c2 \<noteq> None then
                 do {
                   dat3 \<leftarrow> data_heap (snd r) d;
                   Some (emm_sap_send env (EMMREG_COMMON_PROC_REQ (ad_ueid dat3)) (snd r))
                 }
               else Some r
             }
           else Some r
         }
       else Some (RETURNok, s\<lparr>data_heap := (data_heap s)(d \<mapsto> dat1)\<rparr>)
     }"

definition emm_attach :: "env_t \<Rightarrow> nas_state \<Rightarrow> addr \<Rightarrow> (int \<times> nas_state) option" where
  "emm_attach env s a =
     do {
       c \<leftarrow> ctx_heap s a;
       let r = esm_sap_send env
                 \<lparr>esm_primitive = ESM_PDN_CONNECTIVITY_REQ, esm_ueid = ueid c, esm_ctx = Some a,
                  esm_recv = Some (esm_msg c)\<rparr> s;
       let rc = fst (fst r);
       let err = fst (snd (fst r));
       let out = snd (snd (fst r));
       let s1 = snd r;
       if rc \<noteq> RETURNerror \<and> err = ESM_SAP_SUCCESS then
         (case calloc_data env s1 of
            None \<Rightarrow> emm_attach_failed env a (rc, s1)
          | Some d \<Rightarrow>
              do {
                c1 \<leftarrow> ctx_heap s1 a;
                let s2 = s1\<lparr>data_heap := (data_heap s1)(d \<mapsto> zero_attach_data)\<rparr>;
                let ri = emm_proc_common_initialize env s2 (ueid c1) d;
                if fst ri \<noteq> RETURNok
                then Some (RETURNerror, (snd ri)\<lparr>data_heap := (data_heap (snd ri))(d := None)\<rparr>)
                else
                  do {
                    r2 \<leftarrow> emm_attach_accepted env (snd ri) a d out;
                    emm_attach_failed env a r2
                  }
              })
       else if err \<noteq> ESM_SAP_DISCARDED then
         do {
           c1 \<leftarrow> ctx_heap s1 a;
           let c2 = c1\<lparr>emm_cause := EMM_CAUSE_ESM_FAILURE\<rparr>;
           if malloc_ok env ALLOC_REJECT_ESM_MSG then
             do {
               let c3 = c2\<lparr>esm_msg :=
                     \<lparr>os_length = os_length out, os_value = Some (os_copy (os_length out) out)\<rparr>\<rparr>;
               r2 \<leftarrow> emm_attach_reject env (s1\<lparr>ctx_heap := (ctx_heap s1)(a \<mapsto> c3)\<rparr>) (Some (Dyn a));
               emm_attach_failed env a r2
             }
           else
             emm_attach_failed env a
               (rc, s1\<lparr>ctx_heap := (ctx_heap s1)(a \<mapsto> c2\<lparr>esm_msg := \<lparr>os_length = 0, os_value = None\<rparr>\<rparr>)\<rparr>)
         }
       else emm_attach_failed env a (RETURNok, s1)
     }"

text \<open>\<open>_emm_attach_security\<close>: the security context is created if absent, then zeroed.\<close>

definition emm_attach_security :: "env_t \<Rightarrow> nas_state \<Rightarrow> addr \<Rightarrow> (int \<times> nas_state) option" where
  "emm_attach_security env s a =
     do {
       c \<leftarrow> ctx_heap s a;
       if security c = None \<and> \<not> malloc_ok env ALLOC_SECURITY then
         emm_attach_reject env
           (s\<lparr>ctx_heap := (ctx_heap s)(a \<mapsto> c\<lparr>emm_cause := EMM_CAUSE_ILLEGAL_UE\<rparr>)\<rparr>) (Some (Dyn a))
       else
         do {
           let c1 = c\<lparr>security := Some (zero_security
                       \<lparr>sc_type := EMM_KSI_NOT_AVAILABLE,
                        selected_algorithms :=
                          \<lparr>encryption = NAS_SECURITY_ALGORITHMS_EEA0,
                           integrity = NAS_SECURITY_ALGORITHMS_EIA0\<rparr>\<rparr>)\<rparr>;
           let r = common_proc env (EMM_PROC_SECURITY_MODE_CONTROL (ueid c1))
                     (s\<lparr>ctx_heap := (ctx_heap s)(a \<mapsto> c1)\<rparr>);
           if fst r \<noteq> RETURNok then
             do {
               c2 \<leftarrow> ctx_heap (snd r) a;
               emm_attach_reject env
                 ((snd r)\<lparr>ctx_heap := (ctx_heap (snd r))(a \<mapsto> c2\<lparr>emm_cause := EMM_CAUSE_ILLEGAL_UE\<rparr>)\<rparr>)
                 (Some (Dyn a))
             }
           else Some r
         }
     }"

text \<open>
  The second half of \<open>_emm_attach_identify\<close> (lines 1083 to 1176), entered with the code
  \<open>rc\<close> of the identification and the flag \<open>guti_reallocation\<close>: GUTI reallocation,
  authentication, and the reject of a UE that failed either.
\<close>

definition emm_attach_identified ::
  "env_t \<Rightarrow> addr \<Rightarrow> int \<Rightarrow> bool \<Rightarrow> nas_state \<Rightarrow> (int \<times> nas_state) option" where
  "emm_attach_identified env a rc guti_reallocation s =
     do {
       c \<leftarrow> ctx_heap s a;
       let r1 =
         (if rc \<noteq> RETURNerror \<and> guti_reallocation then
            (let ng = mme_api_new_guti env (imsi c);
                 c1 = c\<lparr>old_guti := guti c,
                        guti := (if malloc_ok env ALLOC_NEW_GUTI then Some (fst (snd ng)) else None),
                        tac := fst (snd (snd ng)), n_tacs := snd (snd (snd ng))\<rparr>;
                 c2 = (if fst ng \<noteq> RETURNok then c1\<lparr>emm_cause := EMM_CAUSE_ILLEGAL_UE\<rparr>
                       else c1\<lparr>guti_is_new := True\<rparr>)
             in (fst ng,
                 log_event (MME_API_NEW_GUTI (imsi c)) (s\<lparr>ctx_heap := (ctx_heap s)(a \<mapsto> c2)\<rparr>)))
          else (rc, s));
       r2 \<leftarrow>
         (if fst r1 \<noteq> RETURNerror then
            do {
              c3 \<leftarrow> ctx_heap (snd r1) a;
              if security c3 \<noteq> None then emm_attach env (snd r1) a
              else if is_emergency c3 \<and> conf_features env AND MME_API_UNAUTHENTICATED_IMSI \<noteq> 0
              then emm_attach_security env (snd r1) a
              else if \<not> NAS_BUILT_IN_EPC env then
                (let r = common_proc env (EMM_PROC_AUTHENTICATION (ueid c3)) (snd r1)
                 in if fst r \<noteq> RETURNok then
                      (case ctx_heap (snd r) a of
                         None \<Rightarrow> None
                       | Some c4 \<Rightarrow>
                           Some (fst r,
                             (snd r)\<lparr>ctx_heap :=
                               (ctx_heap (snd r))(a \<mapsto> c4\<lparr>emm_cause := EMM_CAUSE_ILLEGAL_UE\<rparr>)\<rparr>))
                    else Some r)
              else Some r1
            }
          else Some r1);
       if fst r2 \<noteq> RETURNok then emm_attach_reject env (snd r2) (Some (Dyn a)) else Some r2
     }"

text \<open>
  \<open>_emm_attach_identify\<close>: the identity is chosen in the order IMSI, GUTI, IMEI of an
  emergency attach. The GUTI branch always starts the identification procedure and
  returns (the test of its result is commented out in the source).
\<close>

definition emm_attach_identify :: "env_t \<Rightarrow> nas_state \<Rightarrow> addr \<Rightarrow> (int \<times> nas_state) option" where
  "emm_attach_identify env s a =
     do {
       c \<leftarrow> ctx_heap s a;
       (case imsi c of
          Some i \<Rightarrow>
            if NAS_BUILT_IN_EPC env \<and> security c = None then
              emm_attach_identified env a RETURNok False
                (log_event (NAS_ITTI_AUTH_INFO_REQ (ueid c) i) s)
            else
              (let ri = mme_api_identify_imsi env i;
                   c1 = c\<lparr>vector := snd ri\<rparr>;
                   c2 = (if fst ri \<noteq> RETURNok then c1\<lparr>emm_cause := EMM_CAUSE_ILLEGAL_UE\<rparr> else c1)
               in emm_attach_identified env a (fst ri) True
                    (log_event (MME_API_IDENTIFY_IMSI i) (s\<lparr>ctx_heap := (ctx_heap s)(a \<mapsto> c2)\<rparr>)))
        | None \<Rightarrow>
            (case guti c of
               Some g \<Rightarrow>
                 (let rg = mme_api_identify_guti env g;
                      s1 = log_event (MME_API_IDENTIFY_GUTI g)
                             (s\<lparr>ctx_heap := (ctx_heap s)(a \<mapsto> c\<lparr>vector := snd rg\<rparr>)\<rparr>);
                      r = common_proc env (EMM_PROC_IDENTIFICATION (ueid c)) s1
                  in if fst r \<noteq> RETURNok then
                       (case ctx_heap (snd r) a of
                          None \<Rightarrow> None
                        | Some c2 \<Rightarrow>
                            emm_attach_reject env
                              ((snd r)\<lparr>ctx_heap :=
                                 (ctx_heap (snd r))(a \<mapsto> c2\<lparr>emm_cause := EMM_CAUSE_ILLEGAL_UE\<rparr>)\<rparr>)
                              (Some (Dyn a)))
                     else Some r)
             | None \<Rightarrow>
                 (case imei c of
                    Some e \<Rightarrow>
                      if is_emergency c then
                        (let re = mme_api_identify_imei env e;
                             c1 = c\<lparr>vector := snd re\<rparr>;
                             c2 = (if fst re \<noteq> RETURNok
                                   then c1\<lparr>emm_cause := EMM_CAUSE_IMEI_NOT_ACCEPTED\<rparr> else c1)
                         in emm_attach_identified env a (fst re) False
                              (log_event (MME_API_IDENTIFY_IMEI e)
                                 (s\<lparr>ctx_heap := (ctx_heap s)(a \<mapsto> c2)\<rparr>)))
                      else
                        emm_attach_identified env a RETURNerror False
                          (s\<lparr>ctx_heap := (ctx_heap s)(a \<mapsto> c\<lparr>emm_cause := EMM_CAUSE_ILLEGAL_UE\<rparr>)\<rparr>)
                  | None \<Rightarrow>
                      emm_attach_identified env a RETURNerror False
                        (s\<lparr>ctx_heap := (ctx_heap s)(a \<mapsto> c\<lparr>emm_cause := EMM_CAUSE_ILLEGAL_UE\<rparr>)\<rparr>))))
     }"

subsection \<open>The parameter-change detector and the context update\<close>

text \<open>
  \<open>_emm_attach_have_changed\<close>, test by test in the order of the source. In the branch of
  a request without GUTI on a context that holds one (lines 1662 to 1668) the statement
  \<open>GUTI2STR (guti, guti_str, GUTI2STR_MAX_LENGTH)\<close> is given the NULL \<open>guti\<close> of the request,
  not \<open>ctx->guti\<close>. The macro writes the text of the GUTI it is given, so it reads through
  its first argument: the call is undefined and the function has no result, \<open>None\<close>. In
  the other branches the formatted identities are not NULL.
\<close>

definition emm_attach_have_changed :: "emm_data_context_t \<Rightarrow> attach_request_t \<Rightarrow> bool option" where
  "emm_attach_have_changed ctx r =
     (if (rq_type r = EMM_ATTACH_TYPE_EMERGENCY) \<noteq> is_emergency ctx then Some True
      else if rq_ksi r \<noteq> ksi ctx then Some True
      else if rq_eea r \<noteq> eea ctx then Some True
      else if rq_eia r \<noteq> eia ctx then Some True
      else if rq_umts_present r \<noteq> umts_present ctx then Some True
      else if (umts_present ctx \<noteq> 0 \<and> rq_umts_present r \<noteq> 0) \<and> rq_ucs2 r \<noteq> ucs2 ctx then Some True
      else if (umts_present ctx \<noteq> 0 \<and> rq_umts_present r \<noteq> 0) \<and> rq_uea r \<noteq> uea ctx then Some True
      else if (umts_present ctx \<noteq> 0 \<and> rq_umts_present r \<noteq> 0) \<and> rq_uia r \<noteq> uia ctx then Some True
      else if rq_gprs_present r \<noteq> gprs_present ctx then Some True
      else if (gprs_present ctx \<noteq> 0 \<and> rq_gprs_present r \<noteq> 0) \<and> rq_gea r \<noteq> gea ctx then Some True
      else if rq_guti r \<noteq> None \<and> guti ctx = None then Some True
      else if rq_guti r = None \<and> guti ctx \<noteq> None then None
      else if (case rq_guti r of
                 None \<Rightarrow> False
               | Some g \<Rightarrow>
                   (case guti ctx of
                      None \<Rightarrow> False
                    | Some cg \<Rightarrow>
                        m_tmsi g \<noteq> m_tmsi cg \<or>
                        (MMEcode (gummei g) \<noteq> MMEcode (gummei cg) \<or>
                         MMEgid (gummei g) \<noteq> MMEgid (gummei cg) \<or>
                         MCCdigit1 (plmn (gummei g)) \<noteq> MCCdigit1 (plmn (gummei cg)) \<or>
                         MCCdigit2 (plmn (gummei g)) \<noteq> MCCdigit2 (plmn (gummei cg)) \<or>
                         MCCdigit3 (plmn (gummei g)) \<noteq> MCCdigit3 (plmn (gummei cg)) \<or>
                         MNCdigit1 (plmn (gummei g)) \<noteq> MNCdigit1 (plmn (gummei cg)) \<or>
                         MNCdigit2 (plmn (gummei g)) \<noteq> MNCdigit2 (plmn (gummei cg)) \<or>
                         MNCdigit3 (plmn (gummei g)) \<noteq> MNCdigit3 (plmn (gummei cg))))) then Some True
      else if rq_imsi r \<noteq> None \<and> imsi ctx = None then Some True
      else if rq_imsi r = None \<and> imsi ctx \<noteq> None then Some True
      else if (case rq_imsi r of
                 None \<Rightarrow> False
               | Some i \<Rightarrow> (case imsi ctx of None \<Rightarrow> False | Some ci \<Rightarrow> i \<noteq> ci)) then Some True
      else if rq_imei r \<noteq> None \<and> imei ctx = None then Some True
      else if rq_imei r = None \<and> imei ctx \<noteq> None then Some True
      else if (case rq_imei r of
                 None \<Rightarrow> False
               | Some e \<Rightarrow> (case imei ctx of None \<Rightarrow> False | Some ce \<Rightarrow> e \<noteq> ce)) then Some True
      else Some False)"

text \<open>
  The GUTI part of \<open>_emm_attach_update\<close> (lines 1836 to 1917) on the context at address
  \<open>a\<close> and the GUTI table. The first component is RETURNerror where the source returns
  it and RETURNok where it goes on. \<open>(uint32_t) ctx\<close> is the address cut to 32 bits.
\<close>

definition emm_attach_update_guti ::
  "env_t \<Rightarrow> addr \<Rightarrow> attach_request_t \<Rightarrow> emm_data_context_t \<Rightarrow> (GUTI_t \<rightharpoonup> ueid_t)
     \<Rightarrow> int \<times> emm_data_context_t \<times> (GUTI_t \<rightharpoonup> ueid_t)" where
  "emm_attach_update_guti env a r c idx =
     (case rq_guti r of
        Some g \<Rightarrow>
          (if guti c = None then
             (if malloc_ok env ALLOC_GUTI
              then (RETURNok, c\<lparr>guti := Some g\<rparr>, idx(g \<mapsto> ueid c))
              else (RETURNerror, c, idx(g \<mapsto> ueid c)))
           else (RETURNok, c\<lparr>guti := Some g\<rparr>, idx))
      | None \<Rightarrow>
          (let cg = (case guti c of
                       None \<Rightarrow> (if malloc_ok env ALLOC_GUTI then Some zero_guti else None)
                     | Some g0 \<Rightarrow> Some g0);
               idx1 = (case guti c of None \<Rightarrow> idx | Some g0 \<Rightarrow> idx(g0 := None))
           in case cg of
                None \<Rightarrow> (RETURNerror, c, idx1)
              | Some g0 \<Rightarrow>
                  (case rq_imsi r of
                     None \<Rightarrow> (RETURNerror, c\<lparr>guti := Some g0\<rparr>, idx1)
                   | Some i \<Rightarrow>
                       (let g1 = g0\<lparr>gummei := (gummei g0)\<lparr>MMEcode := gummei_mmec_0 env,
                                                            MMEgid := gummei_mme_gid_0 env\<rparr>,
                                     m_tmsi := word_of_nat a\<rparr>;
                            c1 = c\<lparr>tac := gummei_plmn_tac_0 env\<rparr>;
                            mnc_length = mme_config_find_mnc_length env (digit1 i) (digit2 i)
                                           (digit3 i) (digit4 i) (digit5 i) (digit6 i)
                        in if mnc_length = 2 \<or> mnc_length = 3 then
                             (let g2 = g1\<lparr>gummei := (gummei g1)\<lparr>plmn :=
                                     (if mnc_length = 2
                                      then \<lparr>MCCdigit1 = digit1 i, MCCdigit2 = digit2 i,
                                            MCCdigit3 = digit3 i, MNCdigit1 = digit4 i,
                                            MNCdigit2 = digit5 i, MNCdigit3 = 15\<rparr>
                                      else \<lparr>MCCdigit1 = digit1 i, MCCdigit2 = digit2 i,
                                            MCCdigit3 = digit3 i, MNCdigit1 = digit5 i,
                                            MNCdigit2 = digit6 i, MNCdigit3 = digit4 i\<rparr>)\<rparr>\<rparr>
                              in (RETURNok, c1\<lparr>guti := Some g2, guti_is_new := True\<rparr>,
                                  idx1(g2 \<mapsto> ueid c1)))
                           else (RETURNerror, c1\<lparr>guti := Some g1\<rparr>, idx1)))))"

text \<open>The IMSI, IMEI and ESM message part of \<open>_emm_attach_update\<close> (lines 1919 to 1973).\<close>

definition emm_attach_update_rest ::
  "env_t \<Rightarrow> attach_request_t \<Rightarrow> emm_data_context_t \<Rightarrow> int \<times> emm_data_context_t" where
  "emm_attach_update_rest env r c =
     (if rq_imsi r \<noteq> None \<and> imsi c = None \<and> \<not> malloc_ok env ALLOC_IMSI then (RETURNerror, c)
      else
        (let c1 = (case rq_imsi r of None \<Rightarrow> c | Some i \<Rightarrow> c\<lparr>imsi := Some i\<rparr>)
         in if rq_imei r \<noteq> None \<and> imei c1 = None \<and> \<not> malloc_ok env ALLOC_IMEI
            then (RETURNerror, c1)
            else
              (let c2 = (case rq_imei r of None \<Rightarrow> c1 | Some e \<Rightarrow> c1\<lparr>imei := Some e\<rparr>)
               in if 0 < os_length (rq_esm_msg r) then
                    (let c3 = (if os_value (esm_msg c2) \<noteq> None
                               then c2\<lparr>esm_msg := \<lparr>os_length = 0, os_value = None\<rparr>\<rparr> else c2)
                     in if malloc_ok env ALLOC_ESM_MSG then
                          (RETURNok,
                           c3\<lparr>esm_msg :=
                                \<lparr>os_length = os_length (rq_esm_msg r),
                                 os_value = Some (os_copy (os_length (rq_esm_msg r)) (rq_esm_msg r))\<rparr>,
                              is_attached := False\<rparr>)
                        else (RETURNerror, c3))
                  else
                    (RETURNok,
                     c2\<lparr>esm_msg := (esm_msg c2)\<lparr>os_length := os_length (rq_esm_msg r)\<rparr>,
                        is_attached := False\<rparr>))))"

definition emm_attach_update ::
  "env_t \<Rightarrow> nas_state \<Rightarrow> addr \<Rightarrow> attach_request_t \<Rightarrow> (int \<times> nas_state) option" where
  "emm_attach_update env s a r =
     (case ctx_heap s a of
        None \<Rightarrow> None
      | Some c \<Rightarrow>
          (let c1 = c\<lparr>ueid := rq_ueid r,
                      is_emergency := (rq_type r = EMM_ATTACH_TYPE_EMERGENCY),
                      ksi := rq_ksi r, eea := rq_eea r, eia := rq_eia r, ucs2 := rq_ucs2 r,
                      uea := rq_uea r, uia := rq_uia r, gea := rq_gea r,
                      umts_present := rq_umts_present r, gprs_present := rq_gprs_present r\<rparr>;
               g = emm_attach_update_guti env a r c1 (ctx_coll_guti s);
               res = (if fst g \<noteq> RETURNok then (RETURNerror, fst (snd g))
                      else emm_attach_update_rest env r (fst (snd g)))
           in Some (fst res,
                s\<lparr>ctx_heap := (ctx_heap s)(a \<mapsto> snd res), ctx_coll_guti := snd (snd g)\<rparr>)))"

subsection \<open>The exported functions\<close>

text \<open>The temporary context of \<open>emm_proc_attach_request\<close> and \<open>emm_proc_attach_reject\<close>.\<close>

definition ue_ctx :: "ueid_t \<Rightarrow> emm_data_context_t" where
  "ue_ctx u = zero_ctx\<lparr>is_dynamic := False, ueid := u\<rparr>"

text \<open>
  The context \<open>emm_proc_attach_request\<close> creates (lines 363 to 395).
  Modelled from the spec: \<open>emm_fsm_set_status\<close> is not among the sources; section 4.4
  has the FSM of a fresh context set to DEREGISTERED.
\<close>

definition new_emm_ctx :: "env_t \<Rightarrow> ueid_t \<Rightarrow> emm_data_context_t" where
  "new_emm_ctx env u =
     zero_ctx\<lparr>is_dynamic := True, guti := None, old_guti := None, imsi := None, imei := None,
              security := None, esm_msg := \<lparr>os_length = 0, os_value = None\<rparr>,
              emm_cause := EMM_CAUSE_SUCCESS, ueid := u,
              T3450 := \<lparr>timer_id = NAS_TIMER_INACTIVE_ID, timer_sec = T3450_DEFAULT_VALUE env\<rparr>,
              T3460 := \<lparr>timer_id = NAS_TIMER_INACTIVE_ID, timer_sec = T3460_DEFAULT_VALUE env\<rparr>,
              T3470 := \<lparr>timer_id = NAS_TIMER_INACTIVE_ID, timer_sec = T3470_DEFAULT_VALUE env\<rparr>,
              emm_fsm_status := EMM_DEREGISTERED\<rparr>"

text \<open>
  Lines 400 to 429: the tracking area code is captured, the context is updated, and the
  UE is identified, or rejected if the update failed.
\<close>

definition attach_request_proceed ::
  "env_t \<Rightarrow> nas_state \<Rightarrow> attach_request_t \<Rightarrow> addr \<Rightarrow> (int \<times> nas_state) option" where
  "attach_request_proceed env s r a =
     do {
       c \<leftarrow> ctx_heap s a;
       let s1 = (case rq_tai r of
                   None \<Rightarrow> s
                 | Some t \<Rightarrow> s\<lparr>ctx_heap := (ctx_heap s)(a \<mapsto> c\<lparr>tac := tai_tac t\<rparr>)\<rparr>);
       ru \<leftarrow> emm_attach_update env s1 a r;
       if fst ru \<noteq> RETURNok then
         do {
           c2 \<leftarrow> ctx_heap (snd ru) a;
           emm_attach_reject env
             ((snd ru)\<lparr>ctx_heap := (ctx_heap (snd ru))(a \<mapsto> c2\<lparr>emm_cause := EMM_CAUSE_ILLEGAL_UE\<rparr>)\<rparr>)
             (Some (Dyn a))
         }
       else emm_attach_identify env (snd ru) a
     }"

text \<open>
  Lines 338 to 351, EPC build only: no context under the UE identifier, but the request
  carries a GUTI. A context found by the GUTI is moved to the new UE identifier. The
  result is the state and the new value of \<open>temp\<close>.
\<close>

definition attach_request_rebind ::
  "nas_state \<Rightarrow> attach_request_t \<Rightarrow> (addr option \<times> nas_state) option" where
  "attach_request_rebind s r =
     (case rq_guti r of
        None \<Rightarrow> Some (None, s)
      | Some g \<Rightarrow>
          (case emm_data_context_get_by_guti s g of
             None \<Rightarrow> Some (None, s)
           | Some t \<Rightarrow>
               do {
                 c \<leftarrow> ctx_heap s t;
                 s1 \<leftarrow> emm_data_context_remove
                        (log_event (MME_API_NOTIFY_UE_ID_CHANGED (ueid c) (rq_ueid r)) s) t;
                 s2 \<leftarrow> emm_data_context_add
                        (s1\<lparr>ctx_heap := (ctx_heap s1)(t \<mapsto> c\<lparr>ueid := rq_ueid r\<rparr>)\<rparr>) t;
                 Some (Some t, s2)
               }))"

text \<open>
  The else branch of \<open>emm_proc_attach_request\<close> (lines 335 to 429); \<open>p\<close> is the context
  found under the UE identifier, if any. \<open>previous_context_found\<close> is TRUE only in the
  EPC build and only when \<open>p\<close> is not NULL: after a rebinding it is set to FALSE, so a
  context is allocated, written over \<open>temp\<close> and used from there on.
\<close>

definition attach_request_new ::
  "env_t \<Rightarrow> nas_state \<Rightarrow> attach_request_t \<Rightarrow> addr option \<Rightarrow> (int \<times> nas_state) option" where
  "attach_request_new env s r p =
     do {
       rb \<leftarrow> (if NAS_BUILT_IN_EPC env \<and> p = None then attach_request_rebind s r
               else Some (p, s));
       let previous_context_found = (NAS_BUILT_IN_EPC env \<and> p \<noteq> None);
       if \<not> previous_context_found then
         (case calloc_ctx env (snd rb) of
            None \<Rightarrow>
              emm_attach_reject env
                (if NAS_BUILT_IN_EPC env then snd rb
                 else (snd rb)\<lparr>ctx_coll_ue_id := (ctx_coll_ue_id (snd rb))(rq_ueid r := None)\<rparr>)
                (Some (Auto ((ue_ctx (rq_ueid r))\<lparr>emm_cause := EMM_CAUSE_ILLEGAL_UE\<rparr>)))
          | Some n \<Rightarrow>
              do {
                let s1 = (snd rb)\<lparr>ctx_heap := (ctx_heap (snd rb))(n \<mapsto> new_emm_ctx env (rq_ueid r))\<rparr>;
                s2 \<leftarrow> (if NAS_BUILT_IN_EPC env then emm_data_context_add s1 n
                        else Some (s1\<lparr>ctx_coll_ue_id := (ctx_coll_ue_id s1)(rq_ueid r \<mapsto> n)\<rparr>));
                attach_request_proceed env s2 r n
              })
       else
         (case fst rb of
            None \<Rightarrow> None
          | Some a \<Rightarrow> attach_request_proceed env (snd rb) r a)
     }"

text \<open>
  \<open>emm_proc_attach_request\<close>. The function calls itself after the abort of a changed
  attach; a run that never returns is \<open>None\<close>, as is one whose detector has no result.
  Modelled from the spec: \<open>emm_fsm_get_status\<close> is not among the sources; it reads the
  \<open>fsm_status\<close> of the context (section 3).
\<close>

partial_function (option) emm_proc_attach_request ::
  "env_t \<Rightarrow> nas_state \<Rightarrow> attach_request_t \<Rightarrow> (int \<times> nas_state) option" where
  "emm_proc_attach_request env s r =
     (if \<not> NAS_BUILT_IN_EPC env \<and> EMM_DATA_NB_UE_MAX env \<le> rq_ueid r then
        emm_attach_reject env s
          (Some (Auto ((ue_ctx (rq_ueid r))\<lparr>emm_cause := EMM_CAUSE_ILLEGAL_UE\<rparr>)))
      else if conf_features env AND MME_API_EMERGENCY_ATTACH = 0
              \<and> rq_type r = EMM_ATTACH_TYPE_EMERGENCY then
        emm_attach_reject env s
          (Some (Auto ((ue_ctx (rq_ueid r))\<lparr>emm_cause := EMM_CAUSE_IMEI_NOT_ACCEPTED\<rparr>)))
      else
        (case ctx_of_ueid env s (rq_ueid r) of
           None \<Rightarrow> None
         | Some None \<Rightarrow> attach_request_new env s r None
         | Some (Some a) \<Rightarrow>
             (case ctx_heap s a of
                None \<Rightarrow> None
              | Some c \<Rightarrow>
                  if fsm_rank EMM_DEREGISTERED < fsm_rank (emm_fsm_status c) then
                    (case emm_attach_have_changed c r of
                       None \<Rightarrow> None
                     | Some changed \<Rightarrow>
                         if changed then
                           (case emm_sap_send env (EMMREG_PROC_ABORT (rq_ueid r) (Some a)) s of
                              (rc, s1) \<Rightarrow>
                                if rc \<noteq> RETURNerror then emm_proc_attach_request env s1 r
                                else Some (rc, s1))
                         else Some (RETURNok, s))
                  else attach_request_new env s r (Some a))))"

definition emm_proc_attach_reject ::
  "env_t \<Rightarrow> nas_state \<Rightarrow> ueid_t \<Rightarrow> int \<Rightarrow> (int \<times> nas_state) option" where
  "emm_proc_attach_reject env s u cause =
     emm_attach_reject env s
       (Some (Auto ((ue_ctx u)\<lparr>emm_cause :=
          (if (if NAS_BUILT_IN_EPC env then 0 < u else u < EMM_DATA_NB_UE_MAX env)
           then cause else EMM_CAUSE_ILLEGAL_UE)\<rparr>)))"

text \<open>
  \<open>emm_proc_attach_complete\<close>. The context is looked up only for an admissible UE
  identifier. \<open>esm_sap.err\<close> is written by \<open>esm_sap_send\<close> alone: without a context the
  tests that follow read it as it was left on the stack.
\<close>

definition emm_proc_attach_complete ::
  "env_t \<Rightarrow> nas_state \<Rightarrow> ueid_t \<Rightarrow> OctetString \<Rightarrow> (int \<times> nas_state) option" where
  "emm_proc_attach_complete env s u esm_msg_pP =
     do {
       s0 \<leftarrow> (case emm_proc_common_get_args s u of
                None \<Rightarrow> Some s
              | Some d \<Rightarrow>
                  (case data_heap s d of
                     None \<Rightarrow> None
                   | Some dat \<Rightarrow> Some (s\<lparr>data_heap := (data_heap s)(d := None)\<rparr>)));
       let emm_ctx = (if (if NAS_BUILT_IN_EPC env then 0 < u else u < EMM_DATA_NB_UE_MAX env)
                      then ctx_coll_ue_id s0 u else None);
       sent \<leftarrow> (case emm_ctx of
                  None \<Rightarrow> Some ((RETURNerror, indeterminate_err env), s0)
                | Some a \<Rightarrow>
                    (case ctx_heap s0 a of
                       None \<Rightarrow> None
                     | Some c \<Rightarrow>
                         (let t = nas_timer_stop (timer_id (T3450 c));
                              c1 = c\<lparr>T3450 := (T3450 c)\<lparr>timer_id := fst t\<rparr>,
                                     guti_is_new := False, old_guti := None\<rparr>;
                              r = esm_sap_send env
                                    \<lparr>esm_primitive = ESM_DEFAULT_EPS_BEARER_CONTEXT_ACTIVATE_CNF,
                                     esm_ueid = u, esm_ctx = Some a, esm_recv = Some esm_msg_pP\<rparr>
                                    (s0\<lparr>ctx_heap := (ctx_heap s0)(a \<mapsto> c1),
                                        trace := trace s0 @ snd t\<rparr>)
                          in Some ((fst (fst r), fst (snd (fst r))), snd r))));
       let rc = fst (fst sent);
       let err = snd (fst sent);
       let s1 = snd sent;
       if rc \<noteq> RETURNerror \<and> err = ESM_SAP_SUCCESS then
         (case emm_ctx of
            None \<Rightarrow> None
          | Some a \<Rightarrow>
              (case ctx_heap s1 a of
                 None \<Rightarrow> None
               | Some c \<Rightarrow>
                   Some (emm_sap_send env (EMMREG_ATTACH_CNF u emm_ctx)
                           (s1\<lparr>ctx_heap := (ctx_heap s1)(a \<mapsto> c\<lparr>is_attached := True\<rparr>)\<rparr>))))
       else if err \<noteq> ESM_SAP_DISCARDED then
         Some (emm_sap_send env (EMMREG_ATTACH_REJ u emm_ctx) s1)
       else Some (RETURNok, s1)
     }"

subsection \<open>The parameter-change detector as the specification words it\<close>

text \<open>
  Section 4.3: two GUTIs are equal iff the M-TMSI and every digit of the embedded GUMMEI
  match; an identity present on one side only differs.
\<close>

definition guti_equal :: "GUTI_t \<Rightarrow> GUTI_t \<Rightarrow> bool" where
  "guti_equal g h \<longleftrightarrow>
     m_tmsi g = m_tmsi h \<and>
     MMEcode (gummei g) = MMEcode (gummei h) \<and>
     MMEgid (gummei g) = MMEgid (gummei h) \<and>
     MCCdigit1 (plmn (gummei g)) = MCCdigit1 (plmn (gummei h)) \<and>
     MCCdigit2 (plmn (gummei g)) = MCCdigit2 (plmn (gummei h)) \<and>
     MCCdigit3 (plmn (gummei g)) = MCCdigit3 (plmn (gummei h)) \<and>
     MNCdigit1 (plmn (gummei g)) = MNCdigit1 (plmn (gummei h)) \<and>
     MNCdigit2 (plmn (gummei g)) = MNCdigit2 (plmn (gummei h)) \<and>
     MNCdigit3 (plmn (gummei g)) = MNCdigit3 (plmn (gummei h))"

definition identity_differs :: "('a \<Rightarrow> 'a \<Rightarrow> bool) \<Rightarrow> 'a option \<Rightarrow> 'a option \<Rightarrow> bool" where
  "identity_differs eq new old =
     (case new of
        None \<Rightarrow> old \<noteq> None
      | Some x \<Rightarrow> (case old of None \<Rightarrow> True | Some y \<Rightarrow> \<not> eq x y))"

definition spec_changed :: "emm_data_context_t \<Rightarrow> attach_request_t \<Rightarrow> bool" where
  "spec_changed ctx r \<longleftrightarrow>
     (rq_type r = EMM_ATTACH_TYPE_EMERGENCY) \<noteq> is_emergency ctx \<or>
     rq_ksi r \<noteq> ksi ctx \<or> rq_eea r \<noteq> eea ctx \<or> rq_eia r \<noteq> eia ctx \<or>
     rq_umts_present r \<noteq> umts_present ctx \<or> rq_gprs_present r \<noteq> gprs_present ctx \<or>
     (umts_present ctx \<noteq> 0 \<and> rq_umts_present r \<noteq> 0 \<and>
        (rq_ucs2 r \<noteq> ucs2 ctx \<or> rq_uea r \<noteq> uea ctx \<or> rq_uia r \<noteq> uia ctx)) \<or>
     (gprs_present ctx \<noteq> 0 \<and> rq_gprs_present r \<noteq> 0 \<and> rq_gea r \<noteq> gea ctx) \<or>
     identity_differs guti_equal (rq_guti r) (guti ctx) \<or>
     identity_differs (=) (rq_imsi r) (imsi ctx) \<or>
     identity_differs (=) (rq_imei r) (imei ctx)"

subsection \<open>Peers that leave the attach data alone\<close>

text \<open>
  The peers return without touching the state of this file: what they do to the
  contexts, the store, the buffers and the registry happens in later calls.
\<close>

definition peers_quiet :: "env_t \<Rightarrow> bool" where
  "peers_quiet env \<longleftrightarrow>
     (\<forall>sap s. emm_sap_eff env sap s = s) \<and>
     (\<forall>sap s. esm_sap_eff env sap s = s) \<and>
     (\<forall>ev s. common_proc_eff env ev s = s)"

text \<open>The number of ATTACH ACCEPT and of ATTACH REJECT messages handed to the EMMAS-SAP.\<close>

fun is_attach_accept :: "event \<Rightarrow> bool" where
  "is_attach_accept (EMM_SAP_SEND (EMMAS_ESTABLISH_CNF m)) = True"
| "is_attach_accept e = False"

fun is_attach_reject :: "event \<Rightarrow> bool" where
  "is_attach_reject (EMM_SAP_SEND (EMMAS_ESTABLISH_REJ u cause msg sctx)) = True"
| "is_attach_reject e = False"

subsection \<open>A UE, an environment and the states of an attach\<close>

definition example_imsi :: imsi_t where
  "example_imsi =
     \<lparr>imsi_length = 8, digit1 = 0, digit2 = 0, digit3 = 1, digit4 = 0, digit5 = 1, digit6 = 0,
      digits_rest = [0, 0, 0, 0, 31]\<rparr>"

definition example_guti :: GUTI_t where
  "example_guti =
     \<lparr>gummei = \<lparr>plmn = \<lparr>MCCdigit1 = 0, MCCdigit2 = 0, MCCdigit3 = 1,
                          MNCdigit1 = 0, MNCdigit2 = 1, MNCdigit3 = 15\<rparr>,
                 MMEgid = 4, MMEcode = 1\<rparr>,
      m_tmsi = 4096\<rparr>"

definition example_pdu :: OctetString where
  "example_pdu = \<lparr>os_length = 3, os_value = Some [2, 1, 208]\<rparr>"

definition example_security :: emm_security_context_t where
  "example_security = zero_security\<lparr>sc_type := 1, selected_algorithms := \<lparr>encryption = 2, integrity = 2\<rparr>\<rparr>"

text \<open>
  All calls succeed, the peers are quiet, the ESM answers with \<open>example_pdu\<close>, contexts
  are allocated at address 20480 and buffers at address 8192. The build is the EPC's,
  without ORIGINAL_CODE, and emergency attach is not configured.
\<close>

definition example_env :: env_t where
  "example_env =
     \<lparr>NAS_BUILT_IN_EPC = True, ORIGINAL_CODE = False, EMM_DATA_NB_UE_MAX = 16,
      T3450_DEFAULT_VALUE = 6, T3460_DEFAULT_VALUE = 6, T3470_DEFAULT_VALUE = 6,
      conf_features = 0, gummei_plmn_tac_0 = 1, gummei_mmec_0 = 1, gummei_mme_gid_0 = 4,
      mme_config_find_mnc_length = (\<lambda>d1 d2 d3 d4 d5 d6. 2),
      mme_api_identify_imsi = (\<lambda>i. (RETURNok, [])),
      mme_api_identify_guti = (\<lambda>g. (RETURNok, [])),
      mme_api_identify_imei = (\<lambda>e. (RETURNok, [])),
      mme_api_new_guti = (\<lambda>i. (RETURNok, example_guti\<lparr>m_tmsi := 4097\<rparr>, 1, 1)),
      emm_sap_rc = (\<lambda>sap s. RETURNok),
      emm_sap_eff = (\<lambda>sap s. s),
      esm_sap_rc = (\<lambda>sap s. RETURNok),
      esm_sap_err = (\<lambda>sap s. ESM_SAP_SUCCESS),
      esm_sap_out = (\<lambda>sap s. example_pdu),
      esm_sap_eff = (\<lambda>sap s. s),
      common_proc_rc = (\<lambda>ev s. RETURNok),
      common_proc_eff = (\<lambda>ev s. s),
      common_initialize_rc = (\<lambda>u. RETURNok),
      nas_timer_start_id = (\<lambda>sec d. 1),
      malloc_ok = (\<lambda>site. True),
      calloc_ctx = (\<lambda>s. Some 20480),
      calloc_data = (\<lambda>s. Some 8192),
      indeterminate_rc = 0,
      indeterminate_err = ESM_SAP_FAILED\<rparr>"

definition example_request :: attach_request_t where
  "example_request =
     \<lparr>rq_ueid = 7, rq_type = EMM_ATTACH_TYPE_EPS, rq_is_native_ksi = True, rq_ksi = 7,
      rq_is_native_guti = False, rq_guti = None, rq_imsi = Some example_imsi, rq_imei = None,
      rq_tai = None, rq_eea = 240, rq_eia = 240, rq_ucs2 = 0, rq_uea = 0, rq_uia = 0,
      rq_gea = 0, rq_umts_present = 0, rq_gprs_present = 0, rq_esm_msg = example_pdu\<rparr>"

text \<open>
  The context of UE 7 at address 4096 once its attach request is identified and secured,
  and the same context after the ATTACH ACCEPT, with T3450 running.
\<close>

definition example_ctx :: emm_data_context_t where
  "example_ctx =
     \<lparr>ueid = 7, is_dynamic = True, is_attached = False, is_emergency = False,
      imsi = Some example_imsi, imei = None, guti_is_new = True, guti = Some example_guti,
      old_guti = None, n_tacs = 0, tac = 1, ksi = 7, eea = 240, eia = 240, ucs2 = 0, uea = 0,
      uia = 0, gea = 0, umts_present = 0, gprs_present = 0, vector = [],
      security = Some example_security, esm_msg = example_pdu,
      emm_cause = EMM_CAUSE_SUCCESS, emm_fsm_status = EMM_COMMON_PROCEDURE_INITIATED,
      T3450 = \<lparr>timer_id = NAS_TIMER_INACTIVE_ID, timer_sec = 6\<rparr>,
      T3460 = \<lparr>timer_id = NAS_TIMER_INACTIVE_ID, timer_sec = 6\<rparr>,
      T3470 = \<lparr>timer_id = NAS_TIMER_INACTIVE_ID, timer_sec = 6\<rparr>\<rparr>"

definition example_state :: nas_state where
  "example_state =
     \<lparr>ctx_heap = [4096 \<mapsto> example_ctx], data_heap = Map.empty,
      ctx_coll_ue_id = [7 \<mapsto> 4096], ctx_coll_guti = [example_guti \<mapsto> 7],
      common_args = Map.empty, trace = []\<rparr>"

definition accepted_ctx :: emm_data_context_t where
  "accepted_ctx = example_ctx\<lparr>T3450 := \<lparr>timer_id = 1, timer_sec = 6\<rparr>\<rparr>"

definition accepted_state :: nas_state where
  "accepted_state =
     \<lparr>ctx_heap = [4096 \<mapsto> accepted_ctx],
      data_heap = [8192 \<mapsto> \<lparr>ad_ueid = 7, retransmission_count = 0, ad_esm_msg = example_pdu\<rparr>],
      ctx_coll_ue_id = [7 \<mapsto> 4096], ctx_coll_guti = [example_guti \<mapsto> 7],
      common_args = [7 \<mapsto> 8192], trace = []\<rparr>"

text \<open>
  The GUTI section 4.4 (step 5) has the update synthesize for a context at address \<open>a\<close>
  and an IMSI \<open>i\<close>: MME code and group from the configuration, the PLMN digits from the
  IMSI, the M-TMSI the 32 low bits of the address.
\<close>

definition synthesized_guti :: "env_t \<Rightarrow> addr \<Rightarrow> imsi_t \<Rightarrow> GUTI_t" where
  "synthesized_guti env a i =
     \<lparr>gummei =
        \<lparr>plmn =
           (if mme_config_find_mnc_length env (digit1 i) (digit2 i) (digit3 i) (digit4 i)
                 (digit5 i) (digit6 i) = 2
            then \<lparr>MCCdigit1 = digit1 i, MCCdigit2 = digit2 i, MCCdigit3 = digit3 i,
                  MNCdigit1 = digit4 i, MNCdigit2 = digit5 i, MNCdigit3 = 15\<rparr>
            else \<lparr>MCCdigit1 = digit1 i, MCCdigit2 = digit2 i, MCCdigit3 = digit3 i,
                  MNCdigit1 = digit5 i, MNCdigit2 = digit6 i, MNCdigit3 = digit4 i\<rparr>),
         MMEgid = gummei_mme_gid_0 env, MMEcode = gummei_mmec_0 env\<rparr>,
      m_tmsi = word_of_nat a\<rparr>"

text \<open>
  Two contexts as \<open>emm_proc_attach_request\<close> creates them, for the UEs 7 and 8, at
  addresses that differ by \<open>2 ^ 32\<close>; and the state without any context.
\<close>

definition fresh_state :: nas_state where
  "fresh_state =
     \<lparr>ctx_heap = [4096 \<mapsto> new_emm_ctx example_env 7, 4294971392 \<mapsto> new_emm_ctx example_env 8],
      data_heap = Map.empty,
      ctx_coll_ue_id = [7 \<mapsto> 4096, 8 \<mapsto> 4294971392], ctx_coll_guti = Map.empty,
      common_args = Map.empty, trace = []\<rparr>"

definition empty_state :: nas_state where
  "empty_state =
     \<lparr>ctx_heap = Map.empty, data_heap = Map.empty, ctx_coll_ue_id = Map.empty,
      ctx_coll_guti = Map.empty, common_args = Map.empty, trace = []\<rparr>"

text \<open>
  The UE identifiers for which \<open>emm_proc_attach_complete\<close> and \<open>emm_proc_attach_reject\<close>
  look a context up: \<open>ueid > 0\<close> in the EPC build, \<open>ueid < EMM_DATA_NB_UE_MAX\<close> otherwise.
\<close>

definition admissible :: "env_t \<Rightarrow> ueid_t \<Rightarrow> bool" where
  "admissible env u = (if NAS_BUILT_IN_EPC env then 0 < u else u < EMM_DATA_NB_UE_MAX env)"

text \<open>The state after the ATTACH ACCEPT, for a UE whose identifier is 0.\<close>

definition ue0_state :: nas_state where
  "ue0_state =
     \<lparr>ctx_heap = [4096 \<mapsto> accepted_ctx\<lparr>ueid := 0\<rparr>],
      data_heap = [8192 \<mapsto> \<lparr>ad_ueid = 0, retransmission_count = 0, ad_esm_msg = example_pdu\<rparr>],
      ctx_coll_ue_id = [0 \<mapsto> 4096], ctx_coll_guti = [example_guti \<mapsto> 0],
      common_args = [0 \<mapsto> 8192], trace = []\<rparr>"

text \<open>
  The EMMAS_ESTABLISH_CNF that \<open>_emm_attach_accept\<close> builds from a context and an ESM
  container, the calls of one retransmission while T3450 runs, and the calls of
  \<open>_emm_attach_release\<close>.
\<close>


definition attach_accept_msg :: "emm_data_context_t \<Rightarrow> OctetString \<Rightarrow> emm_as_establish_cnf_t" where
  "attach_accept_msg c msg =
     \<lparr>cnf_ueid = ueid c,
      cnf_UEid_guti = (if guti_is_new c \<and> old_guti c \<noteq> None then old_guti c else guti c),
      cnf_new_guti = guti c,
      cnf_n_tacs = n_tacs c,
      cnf_tac = tac c,
      cnf_sctx = security c,
      cnf_encryption = (case security c of None \<Rightarrow> 0 | Some sec \<Rightarrow> encryption (selected_algorithms sec)),
      cnf_integrity = (case security c of None \<Rightarrow> 0 | Some sec \<Rightarrow> integrity (selected_algorithms sec)),
      cnf_NASmsg = msg\<rparr>"

definition retransmission_events :: "emm_data_context_t \<Rightarrow> OctetString \<Rightarrow> event list" where
  "retransmission_events c msg =
     [MME_API_NOTIFY_NEW_GUTI (ueid c) (guti c),
      EMM_SAP_SEND (EMMAS_ESTABLISH_CNF (attach_accept_msg c msg)),
      NAS_TIMER_RESTART (timer_id (T3450 c))]"

definition release_events :: "env_t \<Rightarrow> emm_data_context_t \<Rightarrow> addr \<Rightarrow> event list" where
  "release_events env c a =
     snd (release_ctx_data c) @ (if NAS_BUILT_IN_EPC env then [EMM_DATA_CONTEXT_REMOVE a] else [])
       @ [EMM_SAP_SEND (EMMREG_PROC_ABORT (ueid c) (Some a))]"

subsection \<open>Attach requests on an existing context\<close>

text \<open>
  What the second pass of \<open>emm_proc_attach_request\<close> needs in order not to call itself
  again: no context under the UE identifier, or one whose status is not above
  EMM_DEREGISTERED.
\<close>

definition ctx_cleared :: "nas_state \<Rightarrow> ueid_t \<Rightarrow> bool" where
  "ctx_cleared s u =
     (case ctx_coll_ue_id s u of
        None \<Rightarrow> True
      | Some b \<Rightarrow>
          (case ctx_heap s b of
             None \<Rightarrow> False
           | Some cb \<Rightarrow> \<not> fsm_rank EMM_DEREGISTERED < fsm_rank (emm_fsm_status cb)))"

text \<open>
  An environment as \<open>example_env\<close> whose EMM-SAP, on EMMREG_PROC_ABORT, takes the context
  of the UE out of the store.
\<close>

definition aborting_env :: env_t where
  "aborting_env =
     example_env\<lparr>emm_sap_eff :=
       (\<lambda>sap s. case sap of
                   EMMREG_PROC_ABORT u p \<Rightarrow> s\<lparr>ctx_coll_ue_id := (ctx_coll_ue_id s)(u := None)\<rparr>
                 | _ \<Rightarrow> s)\<rparr>"

text \<open>
  Requests of UE 7: one that differs from \<open>example_ctx\<close> in the encryption algorithms, one
  on the new UE identifier 12 that carries the GUTI only, and an emergency request that
  carries an IMEI only. And the state in which UE 7 is attached.
\<close>

definition changed_request :: attach_request_t where
  "changed_request = example_request\<lparr>rq_guti := Some example_guti, rq_eea := 112\<rparr>"

definition rebind_request :: attach_request_t where
  "rebind_request = example_request\<lparr>rq_ueid := 12, rq_guti := Some example_guti, rq_imsi := None\<rparr>"

definition imei_request :: attach_request_t where
  "imei_request =
     example_request\<lparr>rq_type := EMM_ATTACH_TYPE_EMERGENCY, rq_imsi := None,
                     rq_imei := Some [53, 146, 8, 16, 50, 84, 118, 152]\<rparr>"

definition attached_state :: nas_state where
  "attached_state =
     \<lparr>ctx_heap = [4096 \<mapsto> example_ctx\<lparr>is_attached := True, guti_is_new := False,
                                         emm_fsm_status := EMM_REGISTERED\<rparr>],
      data_heap = Map.empty,
      ctx_coll_ue_id = [7 \<mapsto> 4096], ctx_coll_guti = [example_guti \<mapsto> 7],
      common_args = [7 \<mapsto> 8192], trace = []\<rparr>"

subsection \<open>The attached flag of the contexts\<close>

text \<open>
  The \<open>is_attached\<close> flags of a heap of contexts, address by address, and the order in
  which the second heap has no attached context that the first has not.
\<close>

definition attm :: "(addr \<rightharpoonup> emm_data_context_t) \<Rightarrow> (addr \<rightharpoonup> bool)" where
  "attm h = (\<lambda>x. map_option is_attached (h x))"

definition att_le :: "(addr \<rightharpoonup> bool) \<Rightarrow> (addr \<rightharpoonup> bool) \<Rightarrow> bool" where
  "att_le m m' = (\<forall>x. m' x = Some True \<longrightarrow> m x = Some True)"

definition att_sub :: "nas_state \<Rightarrow> nas_state \<Rightarrow> bool" where
  "att_sub s s' = att_le (attm (ctx_heap s)) (attm (ctx_heap s'))"

section \<open>The parameter-change detector\<close>

lemma if_True_else: "(if a then True else b) = (a \<or> b)"
  by simp

lemma identity_differs_alt:
  "identity_differs eq new old \<longleftrightarrow>
     (new \<noteq> None \<and> old = None) \<or> (new = None \<and> old \<noteq> None) \<or>
     (case new of None \<Rightarrow> False
      | Some x \<Rightarrow> (case old of None \<Rightarrow> False | Some y \<Rightarrow> \<not> eq x y))"
  unfolding identity_differs_def by (cases new; cases old) simp_all

lemma not_guti_equal:
  "\<not> guti_equal g cg \<longleftrightarrow>
     m_tmsi g \<noteq> m_tmsi cg \<or>
     (MMEcode (gummei g) \<noteq> MMEcode (gummei cg) \<or>
      MMEgid (gummei g) \<noteq> MMEgid (gummei cg) \<or>
      MCCdigit1 (plmn (gummei g)) \<noteq> MCCdigit1 (plmn (gummei cg)) \<or>
      MCCdigit2 (plmn (gummei g)) \<noteq> MCCdigit2 (plmn (gummei cg)) \<or>
      MCCdigit3 (plmn (gummei g)) \<noteq> MCCdigit3 (plmn (gummei cg)) \<or>
      MNCdigit1 (plmn (gummei g)) \<noteq> MNCdigit1 (plmn (gummei cg)) \<or>
      MNCdigit2 (plmn (gummei g)) \<noteq> MNCdigit2 (plmn (gummei cg)) \<or>
      MNCdigit3 (plmn (gummei g)) \<noteq> MNCdigit3 (plmn (gummei cg)))"
  unfolding guti_equal_def by blast

lemma if_Some: "(if a then Some x else Some y) = Some (if a then x else y)"
  by simp

text \<open>
  Apart from a request without GUTI on a context that holds one, the detector returns,
  and it returns TRUE iff at least one of these differs: the emergency indicator derived
  from the attach type, ksi, eea, eia, umts_present, gprs_present; ucs2, uea or uia when
  umts_present is set on both sides; gea when gprs_present is set on both sides; the
  GUTI, equal only if the M-TMSI and every digit of the GUMMEI match; the IMSI and the
  IMEI, compared octet-wise and different when present on one side only.
\<close>

lemma have_changed_is_spec_changed:
  assumes "rq_guti r \<noteq> None \<or> guti ctx = None"
  shows "emm_attach_have_changed ctx r = Some (spec_changed ctx r)"
proof -
  have q: "(rq_guti r = None \<and> guti ctx \<noteq> None) = False"
    using assms by auto
  show ?thesis
    unfolding emm_attach_have_changed_def spec_changed_def
    apply (simp only: q if_False)
    apply (simp only: if_Some option.inject)
    apply (simp only: if_True_else identity_differs_alt not_guti_equal if_False q)
    apply (simp only: conj_disj_distribL conj_assoc disj_ac simp_thms)
    done
qed

text \<open>
  For a request without GUTI on a context that holds one the specification has CHANGED.
  The detector returns TRUE if an earlier test finds a difference and has no result
  otherwise; it never returns FALSE.
\<close>

lemma have_changed_without_guti:
  assumes "rq_guti r = None" "guti ctx = Some g"
  shows "spec_changed ctx r"
    and "emm_attach_have_changed ctx r = None \<or> emm_attach_have_changed ctx r = Some True"
  using assms
  by (simp_all add: spec_changed_def identity_differs_def emm_attach_have_changed_def)

lemma have_changed_Some:
  "emm_attach_have_changed ctx r = Some b \<Longrightarrow> b = spec_changed ctx r"
  using have_changed_is_spec_changed [of r ctx] have_changed_without_guti [of r ctx]
  by (cases "rq_guti r"; cases "guti ctx") auto

text \<open>
  Claim C5 fails in the code. The context of UE 7 holds the GUTI that the update
  synthesized, and the request has the parameters of the context and, as the UE had
  sent, the IMSI and no GUTI. The specification has CHANGED for a GUTI present on one
  side only. In the code every test before line 1662 finds no difference, the branch of
  line 1662 is entered, and line 1665 formats the NULL \<open>guti\<close>: the detector has no
  result. The same request with the GUTI is unchanged, and with other encryption
  algorithms it is changed.
\<close>

theorem have_changed_formats_null_guti:
  "emm_attach_have_changed accepted_ctx example_request = None
   \<and> spec_changed accepted_ctx example_request
   \<and> rq_guti example_request = None
   \<and> guti accepted_ctx = Some example_guti
   \<and> emm_attach_have_changed accepted_ctx (example_request\<lparr>rq_guti := Some example_guti\<rparr>) = Some False
   \<and> emm_attach_have_changed accepted_ctx
        (example_request\<lparr>rq_guti := Some example_guti, rq_eea := 112\<rparr>) = Some True"
  by (simp add: emm_attach_have_changed_def spec_changed_def identity_differs_def guti_equal_def
      accepted_ctx_def example_ctx_def example_request_def)

text \<open>
  On that request the detector does not return what the specification has.
\<close>

theorem have_changed_formats_null_guti_witness:
  "emm_attach_have_changed accepted_ctx example_request
     \<noteq> Some (spec_changed accepted_ctx example_request)"
  using have_changed_formats_null_guti by simp

section \<open>Quiet peers\<close>

lemma quiet_emm_sap_send:
  "peers_quiet env \<Longrightarrow>
   emm_sap_send env sap s = (emm_sap_rc env sap s, s\<lparr>trace := trace s @ [EMM_SAP_SEND sap]\<rparr>)"
  by (simp add: peers_quiet_def emm_sap_send_def)

lemma quiet_esm_sap_send:
  "peers_quiet env \<Longrightarrow>
   esm_sap_send env sap s =
     ((esm_sap_rc env sap s, esm_sap_err env sap s, esm_sap_out env sap s),
      s\<lparr>trace := trace s @ [ESM_SAP_SEND sap]\<rparr>)"
  by (simp add: peers_quiet_def esm_sap_send_def)

lemma quiet_common_proc:
  "peers_quiet env \<Longrightarrow>
   common_proc env ev s = (common_proc_rc env ev s, s\<lparr>trace := trace s @ [ev]\<rparr>)"
  by (simp add: peers_quiet_def common_proc_def)

lemma example_env_quiet: "peers_quiet example_env"
  by (simp add: peers_quiet_def example_env_def)

section \<open>The attach reject\<close>

text \<open>
  Claim C7, as the code has it. With quiet peers, for every context of the heap passed
  to \<open>_emm_attach_reject\<close>: a cause SUCCESS is first replaced by ILLEGAL_UE; when the
  cause is ESM_FAILURE and the ESM message is empty the call returns RETURNerror and
  leaves the state as it was (nothing is sent and the context is not released);
  otherwise one EMMAS_ESTABLISH_REJ carrying the cause is sent, with the ESM message as
  NAS payload iff the cause is ESM_FAILURE, and the context is released iff it is
  dynamic. The automatic context of a caller, which is never dynamic, is rejected the
  same way and never released.
\<close>

theorem reject_emits_and_releases_iff_dynamic:
  assumes quiet: "peers_quiet env"
    and ctx: "ctx_heap s a = Some c"
    and cause: "cause = (if emm_cause c = EMM_CAUSE_SUCCESS then EMM_CAUSE_ILLEGAL_UE else emm_cause c)"
    and sap: "sap = EMMAS_ESTABLISH_REJ (ueid c) cause
                (if cause = EMM_CAUSE_ESM_FAILURE then esm_msg c else os_empty) (security c)"
    and s1: "s1 = s\<lparr>ctx_heap := (ctx_heap s)(a \<mapsto> c\<lparr>emm_cause := cause\<rparr>),
                    trace := trace s @ [EMM_SAP_SEND sap]\<rparr>"
  shows "emm_attach_reject env s (Some (Dyn a)) =
           (if cause = EMM_CAUSE_ESM_FAILURE \<and> os_length (esm_msg c) = 0
            then Some (RETURNerror, s)
            else if is_dynamic c then emm_attach_release env s1 (Some a)
            else Some (emm_sap_rc env sap (s1\<lparr>trace := trace s\<rparr>), s1))
         \<and> (\<not> is_dynamic c \<longrightarrow>
              emm_attach_reject env s (Some (Auto c)) =
                (if cause = EMM_CAUSE_ESM_FAILURE \<and> os_length (esm_msg c) = 0
                 then Some (RETURNerror, s)
                 else Some (emm_sap_rc env sap s, s\<lparr>trace := trace s @ [EMM_SAP_SEND sap]\<rparr>)))"
proof (cases "emm_cause c = EMM_CAUSE_ESM_FAILURE \<and> os_length (esm_msg c) = 0")
  case True
  then have "cause = EMM_CAUSE_ESM_FAILURE" using cause by simp
  moreover have "s\<lparr>ctx_heap := (ctx_heap s)(a \<mapsto> c)\<rparr> = s"
    using ctx by (simp add: map_upd_triv)
  ultimately show ?thesis
    using True ctx
    by (simp add: emm_attach_reject_def load_ctx_def store_ctx_def)
next
  case False
  then show ?thesis
    using ctx cause sap s1 quiet
    by (auto simp: emm_attach_reject_def load_ctx_def store_ctx_def Let_def quiet_emm_sap_send
        word_gt_0)
qed

text \<open>
  The dynamic context of UE 7, its cause still SUCCESS: the reject carries ILLEGAL_UE and
  no payload, and the context is released.
\<close>

theorem reject_emits_and_releases_iff_dynamic_witness:
  "peers_quiet example_env \<and> ctx_heap example_state 4096 = Some example_ctx \<and>
   is_dynamic example_ctx \<and>
   map_option fst (emm_attach_reject example_env example_state (Some (Dyn 4096))) = Some RETURNok \<and>
   map_option (trace \<circ> snd) (emm_attach_reject example_env example_state (Some (Dyn 4096))) =
     Some [EMM_SAP_SEND (EMMAS_ESTABLISH_REJ 7 EMM_CAUSE_ILLEGAL_UE os_empty (Some example_security)),
           EMM_DATA_CONTEXT_REMOVE 4096,
           EMM_SAP_SEND (EMMREG_PROC_ABORT 7 (Some 4096))] \<and>
   map_option (\<lambda>r. ctx_coll_ue_id (snd r) 7)
     (emm_attach_reject example_env example_state (Some (Dyn 4096))) = Some None"
proof -
  have h: "ctx_heap example_state 4096 = Some example_ctx"
    by (simp add: example_state_def)
  note r = reject_emits_and_releases_iff_dynamic [OF example_env_quiet h refl refl refl, THEN conjunct1]
  show ?thesis
    unfolding r using example_env_quiet
    by (simp add: example_state_def example_ctx_def example_env_def
      emm_attach_release_def release_ctx_data_def stop_timer_def nas_timer_stop_def
      release_ctx_store_def emm_data_context_remove_def log_event_def emm_sap_send_def Let_def
      example_pdu_def os_empty_def)
qed

text \<open>
  Claim C7 as stated fails: a dynamic context with cause ESM_FAILURE and no ESM message
  is not released. The call returns RETURNerror and the state is as before: the context
  is still in the store and nothing was sent.
\<close>

theorem reject_esm_failure_without_pdu:
  "emm_attach_reject example_env
     (example_state\<lparr>ctx_heap :=
        [4096 \<mapsto> example_ctx\<lparr>emm_cause := EMM_CAUSE_ESM_FAILURE, esm_msg := os_empty\<rparr>]\<rparr>)
     (Some (Dyn 4096))
   = Some (RETURNerror,
       example_state\<lparr>ctx_heap :=
         [4096 \<mapsto> example_ctx\<lparr>emm_cause := EMM_CAUSE_ESM_FAILURE, esm_msg := os_empty\<rparr>]\<rparr>)
   \<and> is_dynamic example_ctx
   \<and> ctx_coll_ue_id example_state 7 = Some 4096
   \<and> trace example_state = []"
  by (simp add: emm_attach_reject_def load_ctx_def store_ctx_def example_state_def example_ctx_def
      os_empty_def map_upd_triv)

section \<open>The context update\<close>

lemma gummei_overwrite:
  "gm\<lparr>MMEcode := mc, MMEgid := mg, plmn := p\<rparr> = \<lparr>plmn = p, MMEgid = mg, MMEcode = mc\<rparr>"
  by (cases gm) simp

lemma guti_overwrite:
  "g\<lparr>m_tmsi := t, gummei := gm\<rparr> = \<lparr>gummei = gm, m_tmsi = t\<rparr>"
  by (cases g) simp

lemma update_guti_synth:
  assumes "rq_guti r = None" "rq_imsi r = Some i" "malloc_ok env ALLOC_GUTI"
    and "n = mme_config_find_mnc_length env (digit1 i) (digit2 i) (digit3 i) (digit4 i)
               (digit5 i) (digit6 i)"
    and "n = 2 \<or> n = 3"
  shows "emm_attach_update_guti env a r c idx =
     (RETURNok,
      c\<lparr>tac := gummei_plmn_tac_0 env, guti := Some (synthesized_guti env a i),
        guti_is_new := True\<rparr>,
      (case guti c of None \<Rightarrow> idx | Some g0 \<Rightarrow> idx(g0 := None))
        (synthesized_guti env a i \<mapsto> ueid c))"
  using assms
  by (cases "guti c") (auto simp: emm_attach_update_guti_def synthesized_guti_def Let_def zero_guti_def
      gummei_overwrite guti_overwrite)

lemma update_guti_bad_mnc:
  assumes "rq_guti r = None" "rq_imsi r = Some i"
    and "n = mme_config_find_mnc_length env (digit1 i) (digit2 i) (digit3 i) (digit4 i)
               (digit5 i) (digit6 i)"
    and "n \<noteq> 2" "n \<noteq> 3"
  shows "fst (emm_attach_update_guti env a r c idx) = RETURNerror"
  using assms
  by (cases "guti c") (auto simp: emm_attach_update_guti_def Let_def)

lemma update_guti_no_identity:
  assumes "rq_guti r = None" "rq_imsi r = None"
  shows "fst (emm_attach_update_guti env a r c idx) = RETURNerror"
  using assms
  by (cases "guti c") (auto simp: emm_attach_update_guti_def Let_def)

lemma update_rest_ok:
  "fst (emm_attach_update_rest env r c) = RETURNok \<longrightarrow>
   \<not> is_attached (snd (emm_attach_update_rest env r c))"
  by (simp add: emm_attach_update_rest_def Let_def split: option.split)

lemma update_rest_frame:
  "guti (snd (emm_attach_update_rest env r c)) = guti c \<and>
   guti_is_new (snd (emm_attach_update_rest env r c)) = guti_is_new c \<and>
   tac (snd (emm_attach_update_rest env r c)) = tac c"
  by (simp add: emm_attach_update_rest_def Let_def split: option.split)

lemma update_rest_all_malloc:
  "\<forall>site. malloc_ok env site \<Longrightarrow> fst (emm_attach_update_rest env r c) = RETURNok"
  by (simp add: emm_attach_update_rest_def Let_def split: option.split)

lemma synthesized_example: "synthesized_guti example_env 4096 example_imsi = example_guti"
  by (simp add: synthesized_guti_def example_env_def example_imsi_def example_guti_def)

text \<open>
  Claim C8, as the code has it. For every Attach Request without a GUTI and with an
  IMSI, \<open>_emm_attach_update\<close> returns RETURNerror when the MNC length of the lookup is
  neither 2 nor 3; when it is 2 or 3 and the allocations succeed, the update returns
  RETURNok, the context holds the synthesized GUTI (MME code and group from the
  configuration, PLMN digits from the IMSI), \<open>guti_is_new\<close> is set, the TAC is the
  configured one and the GUTI table maps the GUTI to the UE identifier. The M-TMSI is
  the address of the context cut to 32 bits: two contexts get the same M-TMSI iff their
  addresses agree modulo \<open>2 ^ 32\<close>.
\<close>

theorem update_synthesizes_guti:
  assumes ctx: "ctx_heap s a = Some c"
    and no_guti: "rq_guti r = None"
    and has_imsi: "rq_imsi r = Some i"
    and n: "n = mme_config_find_mnc_length env (digit1 i) (digit2 i) (digit3 i) (digit4 i)
                  (digit5 i) (digit6 i)"
  shows "(n \<noteq> 2 \<and> n \<noteq> 3 \<longrightarrow> map_option fst (emm_attach_update env s a r) = Some RETURNerror) \<and>
         ((n = 2 \<or> n = 3) \<and> (\<forall>site. malloc_ok env site) \<longrightarrow>
            (\<exists>s' c'. emm_attach_update env s a r = Some (RETURNok, s') \<and>
               ctx_heap s' a = Some c' \<and>
               guti c' = Some (synthesized_guti env a i) \<and>
               guti_is_new c' \<and>
               tac c' = gummei_plmn_tac_0 env \<and>
               ctx_coll_guti s' (synthesized_guti env a i) = Some (rq_ueid r))) \<and>
         (m_tmsi (synthesized_guti env a i) = m_tmsi (synthesized_guti env b j)
            \<longleftrightarrow> a mod 2 ^ 32 = b mod 2 ^ 32)"
proof (intro conjI impI)
  assume bad: "n \<noteq> 2 \<and> n \<noteq> 3"
  show "map_option fst (emm_attach_update env s a r) = Some RETURNerror"
    using update_guti_bad_mnc [OF no_guti has_imsi n, of a] bad ctx
    by (simp add: emm_attach_update_def Let_def)
next
  assume ok: "(n = 2 \<or> n = 3) \<and> (\<forall>site. malloc_ok env site)"
  then have m: "malloc_ok env ALLOC_GUTI" and n23: "n = 2 \<or> n = 3" by simp_all
  note g = update_guti_synth [OF no_guti has_imsi m n n23, of a]
  show "\<exists>s' c'. emm_attach_update env s a r = Some (RETURNok, s') \<and>
               ctx_heap s' a = Some c' \<and>
               guti c' = Some (synthesized_guti env a i) \<and>
               guti_is_new c' \<and>
               tac c' = gummei_plmn_tac_0 env \<and>
               ctx_coll_guti s' (synthesized_guti env a i) = Some (rq_ueid r)"
    using ctx ok
    by (simp add: emm_attach_update_def Let_def g update_rest_all_malloc update_rest_frame)
next
  show "m_tmsi (synthesized_guti env a i) = m_tmsi (synthesized_guti env b j)
            \<longleftrightarrow> a mod 2 ^ 32 = b mod 2 ^ 32"
    by (simp add: synthesized_guti_def word_of_nat_eq_iff take_bit_eq_mod)
qed

text \<open>
  The fresh context of UE 7 at address 4096 and the IMSI 001 01 ...: the update
  synthesizes the GUTI 001.01|0004|01|00001000; with an MNC length of 0 it fails.
\<close>

theorem update_synthesizes_guti_witness:
  "ctx_heap fresh_state 4096 = Some (new_emm_ctx example_env 7) \<and>
   rq_guti example_request = None \<and> rq_imsi example_request = Some example_imsi \<and>
   (\<exists>s' c'. emm_attach_update example_env fresh_state 4096 example_request = Some (RETURNok, s') \<and>
      ctx_heap s' 4096 = Some c' \<and> guti c' = Some example_guti \<and> guti_is_new c' \<and>
      tac c' = 1 \<and> ctx_coll_guti s' example_guti = Some 7) \<and>
   map_option fst
     (emm_attach_update (example_env\<lparr>mme_config_find_mnc_length := (\<lambda>d1 d2 d3 d4 d5 d6. 0)\<rparr>)
        fresh_state 4096 example_request) = Some RETURNerror"
proof -
  have h: "ctx_heap fresh_state 4096 = Some (new_emm_ctx example_env 7)"
    by (simp add: fresh_state_def)
  have g: "rq_guti example_request = None" and i: "rq_imsi example_request = Some example_imsi"
    by (simp_all add: example_request_def)
  note t = update_synthesizes_guti [OF h g i refl, of example_env 0 example_imsi]
  note u = update_synthesizes_guti [OF h g i refl,
      of "example_env\<lparr>mme_config_find_mnc_length := (\<lambda>d1 d2 d3 d4 d5 d6. 0)\<rparr>" 0 example_imsi]
  have "\<exists>s' c'. emm_attach_update example_env fresh_state 4096 example_request = Some (RETURNok, s') \<and>
      ctx_heap s' 4096 = Some c' \<and> guti c' = Some example_guti \<and> guti_is_new c' \<and>
      tac c' = 1 \<and> ctx_coll_guti s' example_guti = Some 7"
    using t by (simp add: synthesized_example) (simp add: example_env_def example_request_def)
  moreover have "map_option fst
     (emm_attach_update (example_env\<lparr>mme_config_find_mnc_length := (\<lambda>d1 d2 d3 d4 d5 d6. 0)\<rparr>)
        fresh_state 4096 example_request) = Some RETURNerror"
    using u by simp
  ultimately show ?thesis using h g i by simp
qed

text \<open>
  Claim C8 as stated fails in the uniqueness of the M-TMSI: the contexts of UE 7 at
  address 4096 and of UE 8 at address \<open>4096 + 2 ^ 32\<close>, both attaching with the same
  PLMN, get the same GUTI, M-TMSI included, and the GUTI table then leads from the GUTI
  of UE 7 to UE 8.
\<close>

theorem m_tmsi_collision:
  "Option.bind (emm_attach_update example_env fresh_state 4096 example_request)
     (\<lambda>r1. Option.bind
        (emm_attach_update example_env (snd r1) 4294971392 (example_request\<lparr>rq_ueid := 8\<rparr>))
        (\<lambda>r2. Some (map_option guti (ctx_heap (snd r2) 4096),
                    map_option guti (ctx_heap (snd r2) 4294971392),
                    ctx_coll_guti (snd r2) example_guti)))
   = Some (Some (Some example_guti), Some (Some example_guti), Some 8)"
  by (simp add: emm_attach_update_def emm_attach_update_guti_def emm_attach_update_rest_def Let_def
      fresh_state_def new_emm_ctx_def zero_ctx_def example_request_def example_env_def
      example_imsi_def example_guti_def zero_guti_def example_pdu_def os_copy_def)

section \<open>The attach complete\<close>

text \<open>
  Without a context (none stored, or the UE identifier not admissible) nothing writes
  \<open>esm_sap.err\<close> before it is tested: unless the value left on the stack is
  ESM_SAP_DISCARDED, EMMREG_ATTACH_REJ is sent with a NULL context.
\<close>

lemma attach_complete_without_context:
  assumes "ctx_coll_ue_id s u = None \<or> \<not> admissible env u"
    and "common_args s u = None"
  shows "emm_proc_attach_complete env s u msg =
           (if indeterminate_err env = ESM_SAP_DISCARDED then Some (RETURNok, s)
            else Some (emm_sap_send env (EMMREG_ATTACH_REJ u None) s))"
  using assms
  by (auto simp: emm_proc_attach_complete_def emm_proc_common_get_args_def admissible_def Let_def)

text \<open>
  Claim C3, as the code has it. With quiet peers, for every call
  \<open>emm_proc_attach_complete (ueid, esm_msg)\<close> with an admissible UE identifier under
  which a context is stored: the registered retransmission buffer is freed, T3450 is
  stopped, \<open>old_guti\<close> and \<open>guti_is_new\<close> are cleared and
  ESM_DEFAULT_EPS_BEARER_CONTEXT_ACTIVATE_CNF is sent to the ESM; if the ESM answers
  SUCCESS, \<open>is_attached\<close> is set and EMMREG_ATTACH_CNF is sent; if it answers an error
  other than DISCARDED, EMMREG_ATTACH_REJ is sent; if DISCARDED, the call returns
  RETURNok and changes nothing more.
\<close>

theorem attach_complete_with_context:
  assumes quiet: "peers_quiet env"
    and adm: "admissible env u"
    and found: "ctx_coll_ue_id s u = Some a"
    and ctx: "ctx_heap s a = Some c"
    and buf: "case common_args s u of None \<Rightarrow> True | Some d \<Rightarrow> data_heap s d \<noteq> None"
    and c1: "c1 = c\<lparr>T3450 := (T3450 c)\<lparr>timer_id := NAS_TIMER_INACTIVE_ID\<rparr>,
                    guti_is_new := False, old_guti := None\<rparr>"
    and sx: "sx = s\<lparr>data_heap := (case common_args s u of None \<Rightarrow> data_heap s
                                   | Some d \<Rightarrow> (data_heap s)(d := None)),
                    ctx_heap := (ctx_heap s)(a \<mapsto> c1),
                    trace := trace s @ [NAS_TIMER_STOP (timer_id (T3450 c))]\<rparr>"
    and sap: "sap = \<lparr>esm_primitive = ESM_DEFAULT_EPS_BEARER_CONTEXT_ACTIVATE_CNF, esm_ueid = u,
                     esm_ctx = Some a, esm_recv = Some msg\<rparr>"
    and s1: "s1 = sx\<lparr>trace := trace sx @ [ESM_SAP_SEND sap]\<rparr>"
    and ok: "ok = (esm_sap_rc env sap sx \<noteq> RETURNerror \<and> esm_sap_err env sap sx = ESM_SAP_SUCCESS)"
  shows "emm_proc_attach_complete env s u msg =
           (if ok then
              Some (emm_sap_rc env (EMMREG_ATTACH_CNF u (Some a))
                      (s1\<lparr>ctx_heap := (ctx_heap s1)(a \<mapsto> c1\<lparr>is_attached := True\<rparr>)\<rparr>),
                    s1\<lparr>ctx_heap := (ctx_heap s1)(a \<mapsto> c1\<lparr>is_attached := True\<rparr>),
                       trace := trace s1 @ [EMM_SAP_SEND (EMMREG_ATTACH_CNF u (Some a))]\<rparr>)
            else if esm_sap_err env sap sx \<noteq> ESM_SAP_DISCARDED then
              Some (emm_sap_rc env (EMMREG_ATTACH_REJ u (Some a)) s1,
                    s1\<lparr>trace := trace s1 @ [EMM_SAP_SEND (EMMREG_ATTACH_REJ u (Some a))]\<rparr>)
            else Some (RETURNok, s1))"
proof (cases "common_args s u")
  case None
  then show ?thesis
    using quiet adm found ctx c1 sx sap s1 ok
    by (simp add: emm_proc_attach_complete_def emm_proc_common_get_args_def admissible_def Let_def
        quiet_emm_sap_send quiet_esm_sap_send nas_timer_stop_def)
next
  case (Some d)
  then obtain dat where "data_heap s d = Some dat" using buf by auto
  then show ?thesis
    using Some quiet adm found ctx c1 sx sap s1 ok
    by (simp add: emm_proc_attach_complete_def emm_proc_common_get_args_def admissible_def Let_def
        quiet_emm_sap_send quiet_esm_sap_send nas_timer_stop_def)
qed

text \<open>
  UE 7 after its ATTACH ACCEPT: the buffer is freed, T3450 (identifier 1) is stopped, the
  ESM confirms, the context is attached and EMMREG_ATTACH_CNF is sent.
\<close>

theorem attach_complete_with_context_witness:
  "peers_quiet example_env \<and> admissible example_env 7 \<and>
   ctx_coll_ue_id accepted_state 7 = Some 4096 \<and> ctx_heap accepted_state 4096 = Some accepted_ctx \<and>
   emm_proc_attach_complete example_env accepted_state 7 example_pdu =
     Some (RETURNok,
       accepted_state
         \<lparr>data_heap := Map.empty,
          ctx_heap := [4096 \<mapsto> example_ctx\<lparr>guti_is_new := False, is_attached := True\<rparr>],
          trace := [NAS_TIMER_STOP 1,
                    ESM_SAP_SEND \<lparr>esm_primitive = ESM_DEFAULT_EPS_BEARER_CONTEXT_ACTIVATE_CNF,
                                  esm_ueid = 7, esm_ctx = Some 4096, esm_recv = Some example_pdu\<rparr>,
                    EMM_SAP_SEND (EMMREG_ATTACH_CNF 7 (Some 4096))]\<rparr>)"
proof -
  have adm: "admissible example_env 7"
    by (simp add: admissible_def example_env_def)
  have found: "ctx_coll_ue_id accepted_state 7 = Some 4096"
    and ctx: "ctx_heap accepted_state 4096 = Some accepted_ctx"
    and buf: "case common_args accepted_state 7 of None \<Rightarrow> True
              | Some d \<Rightarrow> data_heap accepted_state d \<noteq> None"
    by (simp_all add: accepted_state_def)
  note r = attach_complete_with_context [OF example_env_quiet adm found ctx buf refl refl refl refl refl]
  show ?thesis
    unfolding r using example_env_quiet adm
    by (simp add: accepted_state_def accepted_ctx_def example_ctx_def example_env_def)
qed

text \<open>
  Claim C3 as stated fails in the EPC build for the UE identifier 0: a context is stored
  under it, with T3450 running and \<open>guti_is_new\<close> set, but the lookup is guarded by
  \<open>ueid > 0\<close>. The context is left as it was, nothing is sent to the ESM, and the value
  read from the unwritten \<open>esm_sap.err\<close> decides that EMMREG_ATTACH_REJ is sent.
\<close>

theorem attach_complete_ueid_0:
  "emm_proc_attach_complete example_env ue0_state 0 example_pdu =
     Some (RETURNok,
       ue0_state\<lparr>data_heap := Map.empty, trace := [EMM_SAP_SEND (EMMREG_ATTACH_REJ 0 None)]\<rparr>)
   \<and> ctx_coll_ue_id ue0_state 0 = Some 4096
   \<and> ctx_heap ue0_state 4096 = Some (accepted_ctx\<lparr>ueid := 0\<rparr>)
   \<and> timer_id (T3450 accepted_ctx) = 1
   \<and> guti_is_new accepted_ctx"
  by (simp add: emm_proc_attach_complete_def emm_proc_common_get_args_def Let_def ue0_state_def
      example_env_def emm_sap_send_def accepted_ctx_def example_ctx_def)

section \<open>Timer T3450\<close>
lemma ctx_of_ueid_frame [simp]:
  "ctx_of_ueid env (s\<lparr>trace := t\<rparr>) u = ctx_of_ueid env s u"
  "ctx_of_ueid env (s\<lparr>data_heap := h\<rparr>) u = ctx_of_ueid env s u"
  "ctx_of_ueid env (s\<lparr>ctx_heap := g\<rparr>) u = ctx_of_ueid env s u"
  by (simp_all add: ctx_of_ueid_def emm_data_context_get_def)

lemma accept_restart:
  assumes quiet: "peers_quiet env"
    and ctx: "ctx_heap s a = Some c"
    and sec: "security c = Some sec"
    and dat: "data_heap s d = Some dat"
    and run: "timer_id (T3450 c) \<noteq> NAS_TIMER_INACTIVE_ID"
    and ok: "\<forall>sap st. emm_sap_rc env sap st \<noteq> RETURNerror"
  shows "map_option snd (emm_attach_accept env s (Some a) d) =
           Some (s\<lparr>trace := trace s @ retransmission_events c (ad_esm_msg dat)\<rparr>)"
proof -
  have triv: "(ctx_heap s)(a \<mapsto> c) = ctx_heap s" using ctx by (simp add: map_upd_triv)
  show ?thesis
    using ctx sec dat run ok
    by (simp add: emm_attach_accept_def quiet_emm_sap_send [OF quiet] log_event_def Let_def
        nas_timer_restart_def retransmission_events_def attach_accept_msg_def triv)
qed

lemma release_ctx_data_fields [simp]:
  "ueid (fst (release_ctx_data c)) = ueid c"
  "guti (fst (release_ctx_data c)) = None"
  "is_attached (fst (release_ctx_data c)) = is_attached c"
  "is_dynamic (fst (release_ctx_data c)) = is_dynamic c"
  by (simp_all add: release_ctx_data_def Let_def)

lemma release_quiet:
  assumes quiet: "peers_quiet env"
    and ctx: "ctx_heap s a = Some c"
    and idx: "NAS_BUILT_IN_EPC env \<or> ueid c < EMM_DATA_NB_UE_MAX env"
  shows "\<exists>rc s'. emm_attach_release env s (Some a) = Some (rc, s') \<and>
           data_heap s' = data_heap s \<and> ctx_coll_ue_id s' (ueid c) = None \<and>
           trace s' = trace s @ release_events env c a"
  using ctx idx
  by (auto simp: emm_attach_release_def release_ctx_store_def emm_data_context_remove_def
      quiet_emm_sap_send [OF quiet] log_event_def Let_def release_events_def)

lemma release_events_silent:
  "filter is_attach_accept (release_events env c a) = [] \<and>
   filter is_attach_reject (release_events env c a) = []"
  by (simp add: release_events_def release_ctx_data_def stop_timer_def nas_timer_stop_def Let_def)


lemma abort_quiet:
  assumes quiet: "peers_quiet env"
    and emm_ok: "\<forall>sap st. emm_sap_rc env sap st \<noteq> RETURNerror"
    and esm_ok: "\<forall>sap st. esm_sap_rc env sap st \<noteq> RETURNerror"
    and dat: "data_heap s d = Some dat"
    and store: "ctx_of_ueid env s (ad_ueid dat) = Some (Some a)"
    and ctx: "ctx_heap s a = Some c"
    and u: "ueid c = ad_ueid dat"
  shows "\<exists>rc s'. emm_attach_abort env s (Some d) = Some (rc, s') \<and>
           data_heap s' d = None \<and> ctx_coll_ue_id s' (ueid c) = None \<and>
           trace s' = trace s @ snd (stop_timer (T3450 c)) @
             [ESM_SAP_SEND \<lparr>esm_primitive = ESM_PDN_CONNECTIVITY_REJ, esm_ueid = ueid c,
                             esm_ctx = Some a, esm_recv = None\<rparr>,
              EMM_SAP_SEND (EMMREG_ATTACH_REJ (ueid c) (Some a))] @
             release_events env (c\<lparr>T3450 := fst (stop_timer (T3450 c))\<rparr>) a"
proof -
  define c' where "c' = c\<lparr>T3450 := fst (stop_timer (T3450 c))\<rparr>"
  define s3 where "s3 = s\<lparr>ctx_heap := (ctx_heap s)(a \<mapsto> c'),
      data_heap := (data_heap s)(d := None),
      trace := trace s @ snd (stop_timer (T3450 c)) @
             [ESM_SAP_SEND \<lparr>esm_primitive = ESM_PDN_CONNECTIVITY_REJ, esm_ueid = ueid c,
                             esm_ctx = Some a, esm_recv = None\<rparr>,
              EMM_SAP_SEND (EMMREG_ATTACH_REJ (ueid c) (Some a))]\<rparr>"
  have eq: "emm_attach_abort env s (Some d) = emm_attach_release env s3 (Some a)"
    using dat store ctx u emm_ok esm_ok
    by (simp add: emm_attach_abort_def quiet_emm_sap_send [OF quiet] quiet_esm_sap_send [OF quiet]
        Let_def s3_def c'_def)
  have h: "ctx_heap s3 a = Some c'" by (simp add: s3_def)
  have idx: "NAS_BUILT_IN_EPC env \<or> ueid c' < EMM_DATA_NB_UE_MAX env"
    using store u by (auto simp: ctx_of_ueid_def c'_def split: if_splits)
  from release_quiet [OF quiet h idx] obtain rc s' where
    r: "emm_attach_release env s3 (Some a) = Some (rc, s')"
      "data_heap s' = data_heap s3" "ctx_coll_ue_id s' (ueid c') = None"
      "trace s' = trace s3 @ release_events env c' a"
    by blast
  show ?thesis
    using r eq by (simp add: s3_def c'_def)
qed

lemma concat_replicate_snoc: "concat (replicate k b) @ b = concat (replicate (Suc k) b)"
  by (induction k) simp_all

lemma t3450_handler_step:
  assumes "data_heap s d = Some dat"
    and "s1 = s\<lparr>data_heap := (data_heap s)(d \<mapsto> dat\<lparr>retransmission_count := retransmission_count dat + 1\<rparr>)\<rparr>"
  shows "emm_attach_t3450_handler env s d =
     Option.bind (ctx_of_ueid env s (ad_ueid dat))
       (\<lambda>p. map_option snd
          (if retransmission_count dat + 1 < ATTACH_COUNTER_MAX
           then emm_attach_accept env s1 p d
           else emm_attach_abort env s1 (Some d)))"
  unfolding assms(2) using assms(1)
  by (simp add: emm_attach_t3450_handler_def Let_def map_conv_bind_option comp_def)

lemma expiries_upto_4:
  assumes quiet: "peers_quiet env"
    and emm_ok: "\<forall>sap st. emm_sap_rc env sap st \<noteq> RETURNerror"
    and store: "ctx_of_ueid env s0 (ad_ueid dat) = Some (Some a)"
    and ctx: "ctx_heap s0 a = Some c"
    and sec: "security c = Some sec"
    and run: "timer_id (T3450 c) \<noteq> NAS_TIMER_INACTIVE_ID"
    and dat: "data_heap s0 d = Some dat"
    and zero: "retransmission_count dat = 0"
  shows "k \<le> 4 \<Longrightarrow>
     t3450_expiries env k s0 d =
       Some (s0\<lparr>data_heap := (data_heap s0)(d \<mapsto> dat\<lparr>retransmission_count := of_nat k\<rparr>),
                trace := trace s0 @ concat (replicate k (retransmission_events c (ad_esm_msg dat)))\<rparr>)"
proof (induction k)
  case 0
  have "dat\<lparr>retransmission_count := 0\<rparr> = dat"
    using zero by (cases dat) simp
  then have "(data_heap s0)(d \<mapsto> dat\<lparr>retransmission_count := 0\<rparr>) = data_heap s0"
    using dat by (simp add: map_upd_triv)
  then show ?case by simp
next
  case (Suc k)
  define dk where "dk = dat\<lparr>retransmission_count := of_nat k\<rparr>"
  define sk where "sk = s0\<lparr>data_heap := (data_heap s0)(d \<mapsto> dk),
                trace := trace s0 @ concat (replicate k (retransmission_events c (ad_esm_msg dat)))\<rparr>"
  define s1 where "s1 = sk\<lparr>data_heap := (data_heap sk)(d \<mapsto> dk\<lparr>retransmission_count := retransmission_count dk + 1\<rparr>)\<rparr>"
  have k4: "k \<le> 4" using Suc.prems by simp
  have prev: "t3450_expiries env k s0 d = Some sk"
    unfolding sk_def dk_def by (rule Suc.IH [OF k4])
  have "k = 0 \<or> k = 1 \<or> k = 2 \<or> k = 3" using Suc.prems by arith
  then have lt: "retransmission_count dk + 1 < 5" unfolding dk_def by auto
  have hk: "data_heap sk d = Some dk" by (simp add: sk_def)
  have h: "ctx_heap s1 a = Some c"
    and hd: "data_heap s1 d = Some (dk\<lparr>retransmission_count := retransmission_count dk + 1\<rparr>)"
    using ctx by (simp_all add: s1_def sk_def)
  have st: "ctx_of_ueid env sk (ad_ueid dk) = Some (Some a)"
    using store by (simp add: sk_def dk_def)
  have msg: "ad_esm_msg (dk\<lparr>retransmission_count := retransmission_count dk + 1\<rparr>) = ad_esm_msg dat"
    by (simp add: dk_def)
  note acc = accept_restart [OF quiet h sec hd run emm_ok, unfolded msg]
  have step: "emm_attach_t3450_handler env sk d =
          Some (s1\<lparr>trace := trace s1 @ retransmission_events c (ad_esm_msg dat)\<rparr>)"
    unfolding t3450_handler_step [OF hk s1_def] using lt st acc by simp
  have "dk\<lparr>retransmission_count := retransmission_count dk + 1\<rparr>
      = dat\<lparr>retransmission_count := of_nat (Suc k)\<rparr>"
    by (simp add: dk_def add.commute)
  then have fin: "s1\<lparr>trace := trace s1 @ retransmission_events c (ad_esm_msg dat)\<rparr> =
      s0\<lparr>data_heap := (data_heap s0)(d \<mapsto> dat\<lparr>retransmission_count := of_nat (Suc k)\<rparr>),
         trace := trace s0 @ concat (replicate (Suc k) (retransmission_events c (ad_esm_msg dat)))\<rparr>"
    unfolding s1_def sk_def concat_replicate_snoc [symmetric] by simp
  have "t3450_expiries env (Suc k) s0 d = emm_attach_t3450_handler env sk d"
    using prev by simp
  also note step
  also note fin
  finally show ?case .
qed


lemma filter_retransmissions:
  "filter is_attach_accept (concat (replicate k (retransmission_events c msg))) =
     replicate k (EMM_SAP_SEND (EMMAS_ESTABLISH_CNF (attach_accept_msg c msg))) \<and>
   filter is_attach_reject (concat (replicate k (retransmission_events c msg))) = []"
  by (induction k) (simp_all add: retransmission_events_def)

lemma stop_timer_silent:
  "filter is_attach_accept (snd (stop_timer t)) = [] \<and> filter is_attach_reject (snd (stop_timer t)) = []"
  by (simp add: stop_timer_def nas_timer_stop_def)

text \<open>
  Claim C2. Each expiry of T3450 adds one to the counter of the bound buffer, then
  retransmits the ATTACH ACCEPT through \<open>_emm_attach_accept\<close> if the counter is below
  ATTACH_COUNTER_MAX = 5 and aborts through \<open>_emm_attach_abort\<close> otherwise. Hence, for a
  UE whose ATTACH ACCEPT was sent (the context has its security context, T3450 runs, the
  counter is 0) and which never answers, with peers that accept every primitive: after
  the \<open>k\<close>-th expiry, \<open>k \<le> 4\<close>, the counter is \<open>k\<close> and \<open>k\<close> retransmissions were made;
  the fifth expiry aborts: the buffer is freed, the ESM gets ESM_PDN_CONNECTIVITY_REJ,
  the EMM gets EMMREG_ATTACH_REJ, the context leaves the store, exactly four ATTACH
  ACCEPT were retransmitted, each with the original ESM container, and no ATTACH REJECT
  was sent.
\<close>

theorem t3450_retransmits_four_times_then_aborts:
  assumes quiet: "peers_quiet env"
    and emm_ok: "\<forall>sap st. emm_sap_rc env sap st \<noteq> RETURNerror"
    and esm_ok: "\<forall>sap st. esm_sap_rc env sap st \<noteq> RETURNerror"
    and store: "ctx_of_ueid env s0 (ad_ueid dat) = Some (Some a)"
    and ctx: "ctx_heap s0 a = Some c"
    and u: "ueid c = ad_ueid dat"
    and sec: "security c = Some sec"
    and run: "timer_id (T3450 c) \<noteq> NAS_TIMER_INACTIVE_ID"
    and dat: "data_heap s0 d = Some dat"
    and zero: "retransmission_count dat = 0"
  shows "(\<forall>s dat'. data_heap s d = Some dat' \<longrightarrow>
            emm_attach_t3450_handler env s d =
              Option.bind (ctx_of_ueid env s (ad_ueid dat'))
                (\<lambda>p. map_option snd
                   (if retransmission_count dat' + 1 < ATTACH_COUNTER_MAX
                    then emm_attach_accept env
                      (s\<lparr>data_heap := (data_heap s)(d \<mapsto>
                          dat'\<lparr>retransmission_count := retransmission_count dat' + 1\<rparr>)\<rparr>) p d
                    else emm_attach_abort env
                      (s\<lparr>data_heap := (data_heap s)(d \<mapsto>
                          dat'\<lparr>retransmission_count := retransmission_count dat' + 1\<rparr>)\<rparr>)
                      (Some d)))) \<and>
         (\<forall>k\<le>4. t3450_expiries env k s0 d =
            Some (s0\<lparr>data_heap := (data_heap s0)(d \<mapsto> dat\<lparr>retransmission_count := of_nat k\<rparr>),
                     trace := trace s0 @
                       concat (replicate k (retransmission_events c (ad_esm_msg dat)))\<rparr>)) \<and>
         (\<exists>s5. t3450_expiries env 5 s0 d = Some s5 \<and>
            data_heap s5 d = None \<and> ctx_coll_ue_id s5 (ueid c) = None \<and>
            filter is_attach_accept (trace s5) =
              filter is_attach_accept (trace s0) @
                replicate 4 (EMM_SAP_SEND (EMMAS_ESTABLISH_CNF (attach_accept_msg c (ad_esm_msg dat)))) \<and>
            filter is_attach_reject (trace s5) = filter is_attach_reject (trace s0) \<and>
            ESM_SAP_SEND \<lparr>esm_primitive = ESM_PDN_CONNECTIVITY_REJ, esm_ueid = ueid c,
                           esm_ctx = Some a, esm_recv = None\<rparr> \<in> set (trace s5) \<and>
            EMM_SAP_SEND (EMMREG_ATTACH_REJ (ueid c) (Some a)) \<in> set (trace s5) \<and>
            last (trace s5) = EMM_SAP_SEND (EMMREG_PROC_ABORT (ueid c) (Some a)))"
proof (intro conjI allI impI)
  fix s :: nas_state and dat' :: attach_data_t
  assume "data_heap s d = Some dat'"
  then show "emm_attach_t3450_handler env s d =
              Option.bind (ctx_of_ueid env s (ad_ueid dat'))
                (\<lambda>p. map_option snd
                   (if retransmission_count dat' + 1 < ATTACH_COUNTER_MAX
                    then emm_attach_accept env
                      (s\<lparr>data_heap := (data_heap s)(d \<mapsto>
                          dat'\<lparr>retransmission_count := retransmission_count dat' + 1\<rparr>)\<rparr>) p d
                    else emm_attach_abort env
                      (s\<lparr>data_heap := (data_heap s)(d \<mapsto>
                          dat'\<lparr>retransmission_count := retransmission_count dat' + 1\<rparr>)\<rparr>)
                      (Some d)))"
    by (rule t3450_handler_step [OF _ refl])
next
  fix k :: nat
  assume "k \<le> 4"
  then show "t3450_expiries env k s0 d =
            Some (s0\<lparr>data_heap := (data_heap s0)(d \<mapsto> dat\<lparr>retransmission_count := of_nat k\<rparr>),
                     trace := trace s0 @
                       concat (replicate k (retransmission_events c (ad_esm_msg dat)))\<rparr>)"
    by (rule expiries_upto_4 [OF quiet emm_ok store ctx sec run dat zero])
next
  define d4 where "d4 = dat\<lparr>retransmission_count := of_nat (4::nat)\<rparr>"
  define s4 where "s4 = s0\<lparr>data_heap := (data_heap s0)(d \<mapsto> d4),
      trace := trace s0 @ concat (replicate 4 (retransmission_events c (ad_esm_msg dat)))\<rparr>"
  define d5 where "d5 = d4\<lparr>retransmission_count := retransmission_count d4 + 1\<rparr>"
  define s4' where "s4' = s4\<lparr>data_heap := (data_heap s4)(d \<mapsto> d5)\<rparr>"
  have four: "t3450_expiries env 4 s0 d = Some s4"
    unfolding s4_def d4_def by (rule expiries_upto_4 [OF quiet emm_ok store ctx sec run dat zero]) simp
  have h4: "data_heap s4 d = Some d4" by (simp add: s4_def)
  have st4: "ctx_of_ueid env s4 (ad_ueid d4) = Some (Some a)"
    using store by (simp add: s4_def d4_def)
  have ge: "\<not> retransmission_count d4 + 1 < 5" by (simp add: d4_def)
  have hand: "emm_attach_t3450_handler env s4 d = map_option snd (emm_attach_abort env s4' (Some d))"
    unfolding t3450_handler_step [OF h4 s4'_def [unfolded d5_def]] using st4 ge by simp
  have h5: "data_heap s4' d = Some d5" by (simp add: s4'_def)
  have st5: "ctx_of_ueid env s4' (ad_ueid d5) = Some (Some a)"
    using store by (simp add: s4'_def s4_def d5_def d4_def)
  have c5: "ctx_heap s4' a = Some c" using ctx by (simp add: s4'_def s4_def)
  have u5: "ueid c = ad_ueid d5" using u by (simp add: d5_def d4_def)
  from abort_quiet [OF quiet emm_ok esm_ok h5 st5 c5 u5] obtain rc s5 where
    ab: "emm_attach_abort env s4' (Some d) = Some (rc, s5)"
      "data_heap s5 d = None" "ctx_coll_ue_id s5 (ueid c) = None"
      "trace s5 = trace s4' @ snd (stop_timer (T3450 c)) @
             [ESM_SAP_SEND \<lparr>esm_primitive = ESM_PDN_CONNECTIVITY_REJ, esm_ueid = ueid c,
                             esm_ctx = Some a, esm_recv = None\<rparr>,
              EMM_SAP_SEND (EMMREG_ATTACH_REJ (ueid c) (Some a))] @
             release_events env (c\<lparr>T3450 := fst (stop_timer (T3450 c))\<rparr>) a"
    by blast
  have five: "t3450_expiries env 5 s0 d = Some s5"
  proof -
    have "t3450_expiries env (Suc 4) s0 d =
        (case t3450_expiries env 4 s0 d of None \<Rightarrow> None
         | Some s1 \<Rightarrow> emm_attach_t3450_handler env s1 d)"
      by (rule t3450_expiries.simps(2))
    then have "t3450_expiries env (Suc 4) s0 d = Some s5"
      by (simp only: four option.case hand ab(1) option.map snd_conv)
    moreover have "Suc 4 = 5" by simp
    ultimately show ?thesis by simp
  qed
  have tr4: "trace s4' = trace s0 @ concat (replicate 4 (retransmission_events c (ad_esm_msg dat)))"
    by (simp add: s4'_def s4_def)
  have lastev: "last (release_events env (c\<lparr>T3450 := fst (stop_timer (T3450 c))\<rparr>) a)
      = EMM_SAP_SEND (EMMREG_PROC_ABORT (ueid c) (Some a))"
    by (simp add: release_events_def)
  have nonempty: "release_events env (c\<lparr>T3450 := fst (stop_timer (T3450 c))\<rparr>) a \<noteq> []"
    by (simp add: release_events_def)
  show "\<exists>s5. t3450_expiries env 5 s0 d = Some s5 \<and>
            data_heap s5 d = None \<and> ctx_coll_ue_id s5 (ueid c) = None \<and>
            filter is_attach_accept (trace s5) =
              filter is_attach_accept (trace s0) @
                replicate 4 (EMM_SAP_SEND (EMMAS_ESTABLISH_CNF (attach_accept_msg c (ad_esm_msg dat)))) \<and>
            filter is_attach_reject (trace s5) = filter is_attach_reject (trace s0) \<and>
            ESM_SAP_SEND \<lparr>esm_primitive = ESM_PDN_CONNECTIVITY_REJ, esm_ueid = ueid c,
                           esm_ctx = Some a, esm_recv = None\<rparr> \<in> set (trace s5) \<and>
            EMM_SAP_SEND (EMMREG_ATTACH_REJ (ueid c) (Some a)) \<in> set (trace s5) \<and>
            last (trace s5) = EMM_SAP_SEND (EMMREG_PROC_ABORT (ueid c) (Some a))"
    using five ab(2,3) nonempty lastev
    by (simp add: ab(4) tr4 filter_retransmissions stop_timer_silent release_events_silent
        del: replicate.simps replicate_Suc)
qed


text \<open>
  UE 7 after its ATTACH ACCEPT: four expiries leave the counter at 4, the fifth frees
  the buffer and releases the context after four retransmissions and no reject.
\<close>

theorem t3450_retransmits_four_times_then_aborts_witness:
  "peers_quiet example_env \<and>
   ctx_of_ueid example_env accepted_state 7 = Some (Some 4096) \<and>
   ctx_heap accepted_state 4096 = Some accepted_ctx \<and>
   data_heap accepted_state 8192 =
     Some \<lparr>ad_ueid = 7, retransmission_count = 0, ad_esm_msg = example_pdu\<rparr> \<and>
   map_option (\<lambda>s. map_option retransmission_count (data_heap s 8192))
     (t3450_expiries example_env 4 accepted_state 8192) = Some (Some 4) \<and>
   (\<exists>s5. t3450_expiries example_env 5 accepted_state 8192 = Some s5 \<and>
      data_heap s5 8192 = None \<and> ctx_coll_ue_id s5 7 = None \<and>
      length (filter is_attach_accept (trace s5)) = 4 \<and>
      filter is_attach_reject (trace s5) = [] \<and>
      last (trace s5) = EMM_SAP_SEND (EMMREG_PROC_ABORT 7 (Some 4096)))"
proof -
  have emm_ok: "\<forall>sap st. emm_sap_rc example_env sap st \<noteq> RETURNerror"
    and esm_ok: "\<forall>sap st. esm_sap_rc example_env sap st \<noteq> RETURNerror"
    by (simp_all add: example_env_def)
  have dat: "data_heap accepted_state 8192 =
     Some \<lparr>ad_ueid = 7, retransmission_count = 0, ad_esm_msg = example_pdu\<rparr>"
    and ctx: "ctx_heap accepted_state 4096 = Some accepted_ctx"
    by (simp_all add: accepted_state_def)
  have store: "ctx_of_ueid example_env accepted_state
      (ad_ueid \<lparr>ad_ueid = 7, retransmission_count = 0, ad_esm_msg = example_pdu\<rparr>) = Some (Some 4096)"
    by (simp add: ctx_of_ueid_def emm_data_context_get_def example_env_def accepted_state_def)
  have u: "ueid accepted_ctx = ad_ueid \<lparr>ad_ueid = 7, retransmission_count = 0, ad_esm_msg = example_pdu\<rparr>"
    and sec: "security accepted_ctx = Some example_security"
    and run: "timer_id (T3450 accepted_ctx) \<noteq> NAS_TIMER_INACTIVE_ID"
    by (simp_all add: accepted_ctx_def example_ctx_def)
  note t = t3450_retransmits_four_times_then_aborts
      [OF example_env_quiet emm_ok esm_ok store ctx u sec run dat, simplified]
  have four: "map_option (\<lambda>s. map_option retransmission_count (data_heap s 8192))
     (t3450_expiries example_env 4 accepted_state 8192) = Some (Some 4)"
    using t by simp
  from t obtain s5 where s5: "t3450_expiries example_env 5 accepted_state 8192 = Some s5"
      "data_heap s5 8192 = None" "ctx_coll_ue_id s5 (ueid accepted_ctx) = None"
      "filter is_attach_accept (trace s5) =
         filter is_attach_accept (trace accepted_state) @
           replicate 4 (EMM_SAP_SEND (EMMAS_ESTABLISH_CNF (attach_accept_msg accepted_ctx example_pdu)))"
      "filter is_attach_reject (trace s5) = filter is_attach_reject (trace accepted_state)"
      "last (trace s5) = EMM_SAP_SEND (EMMREG_PROC_ABORT (ueid accepted_ctx) (Some 4096))"
    by auto
  have "\<exists>s5. t3450_expiries example_env 5 accepted_state 8192 = Some s5 \<and>
      data_heap s5 8192 = None \<and> ctx_coll_ue_id s5 7 = None \<and>
      length (filter is_attach_accept (trace s5)) = 4 \<and>
      filter is_attach_reject (trace s5) = [] \<and>
      last (trace s5) = EMM_SAP_SEND (EMMREG_PROC_ABORT 7 (Some 4096))"
    using s5 by (simp add: accepted_state_def accepted_ctx_def example_ctx_def)
  then show ?thesis
    using example_env_quiet store ctx dat four by simp
qed

section \<open>The attach after identification and security\<close>


text \<open>
  Claim C1, as the code has it. With quiet peers that accept every primitive, for
  every context with a security context and an idle T3450: when \<open>_emm_attach\<close> sends
  ESM_PDN_CONNECTIVITY_REQ and the ESM answers ESM_SAP_SUCCESS, and the buffer is
  allocated and registered (\<open>emm_proc_common_initialize\<close> with \<open>_emm_attach_abort\<close> as the
  abort callback and the buffer as its argument), the buffer has the counter 0. Built
  with ORIGINAL_CODE, the buffer holds a copy of \<open>esm_sap.send\<close> and
  \<open>_emm_attach_accept\<close> sends the ATTACH ACCEPT with that container and starts T3450 on
  the buffer. Built without, the container of the buffer stays empty and the function
  returns RETURNok after the registration: no ATTACH ACCEPT is sent.
\<close>

theorem attach_allocates_registers_and_accepts:
  assumes quiet: "peers_quiet env"
    and ctx: "ctx_heap s a = Some c"
    and sap: "sap = \<lparr>esm_primitive = ESM_PDN_CONNECTIVITY_REQ, esm_ueid = ueid c, esm_ctx = Some a,
                     esm_recv = Some (esm_msg c)\<rparr>"
    and esm_rc: "esm_sap_rc env sap s \<noteq> RETURNerror"
    and esm_err: "esm_sap_err env sap s = ESM_SAP_SUCCESS"
    and out: "out = esm_sap_out env sap s"
    and alloc: "calloc_data env (s\<lparr>trace := trace s @ [ESM_SAP_SEND sap]\<rparr>) = Some d"
    and init: "common_initialize_rc env (ueid c) = RETURNok"
    and copy: "malloc_ok env ALLOC_DATA_ESM_MSG"
    and sec: "security c = Some sec"
    and idle: "timer_id (T3450 c) = NAS_TIMER_INACTIVE_ID"
    and emm_ok: "\<forall>p st. emm_sap_rc env p st = RETURNok"
    and container: "container = \<lparr>os_length = os_length out, os_value = Some (os_copy (os_length out) out)\<rparr>"
  shows "(ORIGINAL_CODE env \<longrightarrow>
           emm_attach env s a =
             Some (RETURNok,
               s\<lparr>data_heap := (data_heap s)(d \<mapsto>
                     \<lparr>ad_ueid = ueid c, retransmission_count = 0, ad_esm_msg = container\<rparr>),
                  common_args := (common_args s)(ueid c \<mapsto> d),
                  ctx_heap := (ctx_heap s)(a \<mapsto>
                     c\<lparr>T3450 := (T3450 c)\<lparr>timer_id := nas_timer_start_id env (timer_sec (T3450 c)) d\<rparr>\<rparr>),
                  trace := trace s @
                    [ESM_SAP_SEND sap, EMM_PROC_COMMON_INITIALIZE (ueid c) d,
                     MME_API_NOTIFY_NEW_GUTI (ueid c) (guti c),
                     EMM_SAP_SEND (EMMAS_ESTABLISH_CNF (attach_accept_msg c container)),
                     NAS_TIMER_START (timer_sec (T3450 c)) d] @
                    (if guti_is_new c \<and> old_guti c \<noteq> None
                     then [EMM_SAP_SEND (EMMREG_COMMON_PROC_REQ (ueid c))] else [])\<rparr>)) \<and>
         (\<not> ORIGINAL_CODE env \<longrightarrow>
           emm_attach env s a =
             Some (RETURNok,
               s\<lparr>data_heap := (data_heap s)(d \<mapsto>
                     \<lparr>ad_ueid = ueid c, retransmission_count = 0, ad_esm_msg = os_empty\<rparr>),
                  common_args := (common_args s)(ueid c \<mapsto> d),
                  trace := trace s @ [ESM_SAP_SEND sap, EMM_PROC_COMMON_INITIALIZE (ueid c) d]\<rparr>))"
proof (intro conjI impI)
  assume orig: "ORIGINAL_CODE env"
  show "emm_attach env s a =
             Some (RETURNok,
               s\<lparr>data_heap := (data_heap s)(d \<mapsto>
                     \<lparr>ad_ueid = ueid c, retransmission_count = 0, ad_esm_msg = container\<rparr>),
                  common_args := (common_args s)(ueid c \<mapsto> d),
                  ctx_heap := (ctx_heap s)(a \<mapsto>
                     c\<lparr>T3450 := (T3450 c)\<lparr>timer_id := nas_timer_start_id env (timer_sec (T3450 c)) d\<rparr>\<rparr>),
                  trace := trace s @
                    [ESM_SAP_SEND sap, EMM_PROC_COMMON_INITIALIZE (ueid c) d,
                     MME_API_NOTIFY_NEW_GUTI (ueid c) (guti c),
                     EMM_SAP_SEND (EMMAS_ESTABLISH_CNF (attach_accept_msg c container)),
                     NAS_TIMER_START (timer_sec (T3450 c)) d] @
                    (if guti_is_new c \<and> old_guti c \<noteq> None
                     then [EMM_SAP_SEND (EMMREG_COMMON_PROC_REQ (ueid c))] else [])\<rparr>)"
    using ctx esm_rc esm_err alloc init copy sec idle emm_ok orig
    unfolding sap out container
    by (simp add: emm_attach_def emm_attach_accepted_def emm_attach_accept_def emm_attach_failed_def
        emm_proc_common_initialize_def quiet_esm_sap_send [OF quiet] quiet_emm_sap_send [OF quiet]
        log_event_def Let_def zero_attach_data_def attach_accept_msg_def nas_timer_start_def)
next
  assume orig: "\<not> ORIGINAL_CODE env"
  show "emm_attach env s a =
             Some (RETURNok,
               s\<lparr>data_heap := (data_heap s)(d \<mapsto>
                     \<lparr>ad_ueid = ueid c, retransmission_count = 0, ad_esm_msg = os_empty\<rparr>),
                  common_args := (common_args s)(ueid c \<mapsto> d),
                  trace := trace s @ [ESM_SAP_SEND sap, EMM_PROC_COMMON_INITIALIZE (ueid c) d]\<rparr>)"
    using ctx esm_rc esm_err alloc init orig
    unfolding sap out
    by (simp add: emm_attach_def emm_attach_accepted_def emm_attach_failed_def
        emm_proc_common_initialize_def quiet_esm_sap_send [OF quiet]
        log_event_def Let_def zero_attach_data_def)
qed


text \<open>
  UE 7, identified and secured, in a build with ORIGINAL_CODE: the buffer at 8192 holds
  the PDU of the ESM, the ATTACH ACCEPT carries it and T3450 is started.
\<close>

theorem attach_allocates_registers_and_accepts_witness:
  "peers_quiet (example_env\<lparr>ORIGINAL_CODE := True\<rparr>) \<and>
   ctx_heap example_state 4096 = Some example_ctx \<and>
   emm_attach (example_env\<lparr>ORIGINAL_CODE := True\<rparr>) example_state 4096 =
     Some (RETURNok,
       example_state
         \<lparr>data_heap := [8192 \<mapsto> \<lparr>ad_ueid = 7, retransmission_count = 0, ad_esm_msg = example_pdu\<rparr>],
          common_args := [7 \<mapsto> 8192],
          ctx_heap := [4096 \<mapsto> accepted_ctx],
          trace :=
            [ESM_SAP_SEND \<lparr>esm_primitive = ESM_PDN_CONNECTIVITY_REQ, esm_ueid = 7,
                           esm_ctx = Some 4096, esm_recv = Some example_pdu\<rparr>,
             EMM_PROC_COMMON_INITIALIZE 7 8192,
             MME_API_NOTIFY_NEW_GUTI 7 (Some example_guti),
             EMM_SAP_SEND (EMMAS_ESTABLISH_CNF (attach_accept_msg example_ctx example_pdu)),
             NAS_TIMER_START 6 8192]\<rparr>)"
proof -
  have q: "peers_quiet (example_env\<lparr>ORIGINAL_CODE := True\<rparr>)"
    by (simp add: peers_quiet_def example_env_def)
  have ctx: "ctx_heap example_state 4096 = Some example_ctx"
    by (simp add: example_state_def)
  note t = attach_allocates_registers_and_accepts [OF q ctx refl _ _ refl _ _ _ _ _ _ refl,
      of 8192 example_security, THEN conjunct1, rule_format]
  have "emm_attach (example_env\<lparr>ORIGINAL_CODE := True\<rparr>) example_state 4096 =
     Some (RETURNok,
       example_state
         \<lparr>data_heap := [8192 \<mapsto> \<lparr>ad_ueid = 7, retransmission_count = 0, ad_esm_msg = example_pdu\<rparr>],
          common_args := [7 \<mapsto> 8192],
          ctx_heap := [4096 \<mapsto> accepted_ctx],
          trace :=
            [ESM_SAP_SEND \<lparr>esm_primitive = ESM_PDN_CONNECTIVITY_REQ, esm_ueid = 7,
                           esm_ctx = Some 4096, esm_recv = Some example_pdu\<rparr>,
             EMM_PROC_COMMON_INITIALIZE 7 8192,
             MME_API_NOTIFY_NEW_GUTI 7 (Some example_guti),
             EMM_SAP_SEND (EMMAS_ESTABLISH_CNF (attach_accept_msg example_ctx example_pdu)),
             NAS_TIMER_START 6 8192]\<rparr>)"
    by (subst t)
       (simp_all add: example_env_def example_state_def example_ctx_def accepted_ctx_def
          example_pdu_def os_copy_def)
  then show ?thesis using q ctx by simp
qed

text \<open>
  Claim C1 as stated fails in a build without ORIGINAL_CODE: the ESM answers SUCCESS
  with a PDU, the buffer is allocated and registered, but its container is empty and
  nothing is sent to the EMMAS-SAP.
\<close>

theorem attach_without_original_code_sends_no_accept:
  "emm_attach example_env example_state 4096 =
     Some (RETURNok,
       example_state
         \<lparr>data_heap := [8192 \<mapsto> \<lparr>ad_ueid = 7, retransmission_count = 0, ad_esm_msg = os_empty\<rparr>],
          common_args := [7 \<mapsto> 8192],
          trace :=
            [ESM_SAP_SEND \<lparr>esm_primitive = ESM_PDN_CONNECTIVITY_REQ, esm_ueid = 7,
                           esm_ctx = Some 4096, esm_recv = Some example_pdu\<rparr>,
             EMM_PROC_COMMON_INITIALIZE 7 8192]\<rparr>)
   \<and> esm_sap_err example_env
         \<lparr>esm_primitive = ESM_PDN_CONNECTIVITY_REQ, esm_ueid = 7, esm_ctx = Some 4096,
          esm_recv = Some example_pdu\<rparr> example_state = ESM_SAP_SUCCESS
   \<and> esm_sap_out example_env
         \<lparr>esm_primitive = ESM_PDN_CONNECTIVITY_REQ, esm_ueid = 7, esm_ctx = Some 4096,
          esm_recv = Some example_pdu\<rparr> example_state = example_pdu
   \<and> \<not> ORIGINAL_CODE example_env"
  by (simp add: emm_attach_def emm_attach_accepted_def emm_attach_failed_def
      emm_proc_common_initialize_def esm_sap_send_def log_event_def Let_def zero_attach_data_def
      example_env_def example_state_def example_ctx_def)

section \<open>The attach request\<close>

lemmas attach_defs =
  attach_request_new_def attach_request_rebind_def attach_request_proceed_def
  emm_attach_update_def emm_attach_update_guti_def emm_attach_update_rest_def
  emm_attach_identify_def emm_attach_identified_def emm_attach_reject_def emm_attach_release_def
  release_ctx_data_def release_ctx_store_def stop_timer_def nas_timer_stop_def
  emm_data_context_get_def emm_data_context_get_by_guti_def emm_data_context_remove_def
  emm_data_context_add_def ctx_of_ueid_def load_ctx_def store_ctx_def
  emm_sap_send_def esm_sap_send_def common_proc_def log_event_def
  new_emm_ctx_def ue_ctx_def zero_ctx_def zero_guti_def os_empty_def os_copy_def Let_def

lemmas example_defs =
  example_env_def example_state_def accepted_state_def accepted_ctx_def example_ctx_def
  example_request_def example_pdu_def empty_state_def

lemma attach_request_existing:
  assumes pass1: "NAS_BUILT_IN_EPC env \<or> rq_ueid r < EMM_DATA_NB_UE_MAX env"
    and pass2: "conf_features env AND MME_API_EMERGENCY_ATTACH \<noteq> 0 \<or> rq_type r \<noteq> EMM_ATTACH_TYPE_EMERGENCY"
    and found: "ctx_coll_ue_id s (rq_ueid r) = Some a"
    and ctx: "ctx_heap s a = Some c"
    and above: "fsm_rank EMM_DEREGISTERED < fsm_rank (emm_fsm_status c)"
  shows "emm_proc_attach_request env s r =
     (case emm_attach_have_changed c r of
        None \<Rightarrow> None
      | Some changed \<Rightarrow>
          if changed then
            (if fst (emm_sap_send env (EMMREG_PROC_ABORT (rq_ueid r) (Some a)) s) \<noteq> RETURNerror
             then emm_proc_attach_request env (snd (emm_sap_send env (EMMREG_PROC_ABORT (rq_ueid r) (Some a)) s)) r
             else Some (emm_sap_send env (EMMREG_PROC_ABORT (rq_ueid r) (Some a)) s))
          else Some (RETURNok, s))"
  apply (subst emm_proc_attach_request.simps)
  using assms
  apply (auto simp: ctx_of_ueid_def emm_data_context_get_def not_le split: prod.splits option.splits)
  done

lemma attach_request_fresh:
  assumes pass1: "NAS_BUILT_IN_EPC env \<or> rq_ueid r < EMM_DATA_NB_UE_MAX env"
    and pass2: "conf_features env AND MME_API_EMERGENCY_ATTACH \<noteq> 0 \<or> rq_type r \<noteq> EMM_ATTACH_TYPE_EMERGENCY"
    and cleared: "ctx_cleared s (rq_ueid r)"
  shows "emm_proc_attach_request env s r = attach_request_new env s r (ctx_coll_ue_id s (rq_ueid r))"
  apply (subst emm_proc_attach_request.simps)
  using assms
  apply (auto simp: ctx_of_ueid_def emm_data_context_get_def ctx_cleared_def not_le split: option.splits)
  done

text \<open>
  Claim C4, as the code has it, for peers of any kind. An Attach Request that passes the
  check of the UE identifier and the emergency policy, and finds under its UE identifier
  a context whose status is above EMM_DEREGISTERED: if the detector returns FALSE,
  RETURNok is returned and the state, the trace included, is what it was. If it returns
  TRUE, EMMREG_PROC_ABORT is sent once; if that send fails its code is returned
  and the function is not entered again; if it does not fail the function is entered
  again on the state the abort left, and when the abort has left no context under the UE
  identifier, or one not above EMM_DEREGISTERED, that second pass is the creation of a
  new attach without a further call of the function.
\<close>

theorem changed_request_aborts_and_reenters:
  assumes pass1: "NAS_BUILT_IN_EPC env \<or> rq_ueid r < EMM_DATA_NB_UE_MAX env"
    and pass2: "conf_features env AND MME_API_EMERGENCY_ATTACH \<noteq> 0 \<or> rq_type r \<noteq> EMM_ATTACH_TYPE_EMERGENCY"
    and found: "ctx_coll_ue_id s (rq_ueid r) = Some a"
    and ctx: "ctx_heap s a = Some c"
    and above: "fsm_rank EMM_DEREGISTERED < fsm_rank (emm_fsm_status c)"
    and sab: "sab = emm_sap_send env (EMMREG_PROC_ABORT (rq_ueid r) (Some a)) s"
  shows "(emm_attach_have_changed c r = Some False \<longrightarrow>
            emm_proc_attach_request env s r = Some (RETURNok, s)) \<and>
         (emm_attach_have_changed c r = Some True \<longrightarrow>
            trace (snd sab) = trace s @ [EMM_SAP_SEND (EMMREG_PROC_ABORT (rq_ueid r) (Some a))] \<and>
            (fst sab = RETURNerror \<longrightarrow> emm_proc_attach_request env s r = Some (RETURNerror, snd sab)) \<and>
            (fst sab \<noteq> RETURNerror \<longrightarrow>
               emm_proc_attach_request env s r = emm_proc_attach_request env (snd sab) r) \<and>
            (fst sab \<noteq> RETURNerror \<and> ctx_cleared (snd sab) (rq_ueid r) \<longrightarrow>
               emm_proc_attach_request env s r =
                 attach_request_new env (snd sab) r (ctx_coll_ue_id (snd sab) (rq_ueid r))))"
proof -
  note ex = attach_request_existing [OF pass1 pass2 found ctx above]
  have tr: "trace (snd sab) = trace s @ [EMM_SAP_SEND (EMMREG_PROC_ABORT (rq_ueid r) (Some a))]"
    by (simp add: sab emm_sap_send_def)
  have err: "fst sab = RETURNerror \<Longrightarrow> Some sab = Some (RETURNerror, snd sab)"
    by (cases sab) simp
  show ?thesis
    using ex tr err attach_request_fresh [OF pass1 pass2, of "snd sab"]
    by (auto simp: sab [symmetric])
qed

text \<open>
  UE 7 after its ATTACH ACCEPT asks again with other encryption algorithms, and the
  EMM-SAP takes the aborted context out of the store: one EMMREG_PROC_ABORT, then a new
  context at address 20480 with the new algorithms, whose identification starts. The
  same request with the algorithms of the context is a duplicate and changes nothing.
\<close>

theorem changed_request_aborts_and_reenters_witness:
  "ctx_coll_ue_id accepted_state (rq_ueid changed_request) = Some 4096 \<and>
   ctx_heap accepted_state 4096 = Some accepted_ctx \<and>
   emm_attach_have_changed accepted_ctx changed_request = Some True \<and>
   Option.bind (emm_proc_attach_request aborting_env accepted_state changed_request)
     (\<lambda>r. Some (fst r, trace (snd r), ctx_coll_ue_id (snd r) 7,
                 map_option eea (ctx_heap (snd r) 20480)))
   = Some (RETURNok,
       [EMM_SAP_SEND (EMMREG_PROC_ABORT 7 (Some 4096)),
        EMM_DATA_CONTEXT_ADD 20480,
        NAS_ITTI_AUTH_INFO_REQ 7 example_imsi],
       Some 20480, Some 112) \<and>
   emm_proc_attach_request example_env accepted_state (example_request\<lparr>rq_guti := Some example_guti\<rparr>)
     = Some (RETURNok, accepted_state)"
proof -
  have pass1: "NAS_BUILT_IN_EPC aborting_env \<or> rq_ueid changed_request < EMM_DATA_NB_UE_MAX aborting_env"
    and pass2: "conf_features aborting_env AND MME_API_EMERGENCY_ATTACH \<noteq> 0
                \<or> rq_type changed_request \<noteq> EMM_ATTACH_TYPE_EMERGENCY"
    by (simp_all add: aborting_env_def example_env_def changed_request_def example_request_def)
  have found: "ctx_coll_ue_id accepted_state (rq_ueid changed_request) = Some 4096"
    and ctx: "ctx_heap accepted_state 4096 = Some accepted_ctx"
    and above: "fsm_rank EMM_DEREGISTERED < fsm_rank (emm_fsm_status accepted_ctx)"
    by (simp_all add: accepted_state_def changed_request_def example_request_def accepted_ctx_def
        example_ctx_def)
  have ch: "emm_attach_have_changed accepted_ctx changed_request = Some True"
    by (simp add: emm_attach_have_changed_def accepted_ctx_def example_ctx_def changed_request_def
        example_request_def)
  note t = changed_request_aborts_and_reenters [OF pass1 pass2 found ctx above refl,
      THEN conjunct2, rule_format, OF ch, THEN conjunct2, THEN conjunct2, THEN conjunct2, rule_format]
  have cl: "fst (emm_sap_send aborting_env (EMMREG_PROC_ABORT (rq_ueid changed_request) (Some 4096))
                  accepted_state) \<noteq> RETURNerror \<and>
            ctx_cleared (snd (emm_sap_send aborting_env
                  (EMMREG_PROC_ABORT (rq_ueid changed_request) (Some 4096)) accepted_state))
              (rq_ueid changed_request)"
    by (simp add: emm_sap_send_def aborting_env_def example_env_def ctx_cleared_def accepted_state_def
        changed_request_def example_request_def)
  have run: "Option.bind (emm_proc_attach_request aborting_env accepted_state changed_request)
     (\<lambda>r. Some (fst r, trace (snd r), ctx_coll_ue_id (snd r) 7,
                 map_option eea (ctx_heap (snd r) 20480)))
   = Some (RETURNok,
       [EMM_SAP_SEND (EMMREG_PROC_ABORT 7 (Some 4096)),
        EMM_DATA_CONTEXT_ADD 20480,
        NAS_ITTI_AUTH_INFO_REQ 7 example_imsi],
       Some 20480, Some 112)"
    unfolding t [OF cl]
    by (simp add: attach_defs example_defs aborting_env_def changed_request_def)
  have pass1': "NAS_BUILT_IN_EPC example_env \<or>
        rq_ueid (example_request\<lparr>rq_guti := Some example_guti\<rparr>) < EMM_DATA_NB_UE_MAX example_env"
    and pass2': "conf_features example_env AND MME_API_EMERGENCY_ATTACH \<noteq> 0
                \<or> rq_type (example_request\<lparr>rq_guti := Some example_guti\<rparr>) \<noteq> EMM_ATTACH_TYPE_EMERGENCY"
    and found': "ctx_coll_ue_id accepted_state (rq_ueid (example_request\<lparr>rq_guti := Some example_guti\<rparr>)) = Some 4096"
    by (simp_all add: example_env_def example_request_def accepted_state_def)
  have same: "emm_attach_have_changed accepted_ctx (example_request\<lparr>rq_guti := Some example_guti\<rparr>)
                = Some False"
    by (simp add: emm_attach_have_changed_def accepted_ctx_def example_ctx_def example_request_def)
  note d = changed_request_aborts_and_reenters [OF pass1' pass2' found' ctx above refl,
      THEN conjunct1, rule_format, OF same]
  show ?thesis using found ctx ch run d by simp
qed

text \<open>
  Claim C4 as stated fails when the send of EMMREG_PROC_ABORT fails: the context of UE 7
  exists above EMM_DEREGISTERED and the parameters have changed, but the attach is not
  entered again; RETURNerror is returned after the one EMMREG_PROC_ABORT.
\<close>

theorem failed_abort_is_not_reentered:
  "emm_proc_attach_request (example_env\<lparr>emm_sap_rc := (\<lambda>sap s. RETURNerror)\<rparr>)
     accepted_state changed_request
   = Some (RETURNerror, accepted_state\<lparr>trace := [EMM_SAP_SEND (EMMREG_PROC_ABORT 7 (Some 4096))]\<rparr>)
   \<and> ctx_coll_ue_id accepted_state 7 = Some 4096
   \<and> ctx_heap accepted_state 4096 = Some accepted_ctx
   \<and> fsm_rank EMM_DEREGISTERED < fsm_rank (emm_fsm_status accepted_ctx)
   \<and> emm_attach_have_changed accepted_ctx changed_request = Some True"
  apply (subst emm_proc_attach_request.simps)
  apply (simp add: attach_defs example_defs changed_request_def emm_attach_have_changed_def)
  done

text \<open>
  Claim C6 fails in the code. The context of UE 7 (address 4096, GUTI \<open>example_guti\<close>) is
  in the store and a request arrives on the UE identifier 12 with that GUTI and nothing
  else. The context is found by the GUTI, \<open>mme_api_notify_ue_id_changed (7, 12)\<close> comes
  before the remove and the add, and of the found context only \<open>ueid\<close> changes. But line
  350 sets \<open>previous_context_found\<close> to FALSE: a context is allocated at address 20480,
  added to the store, and the request goes on with that empty context, not with the
  one that was found (its IMSI is unknown to the new one).
\<close>

theorem rebound_context_is_replaced_by_a_fresh_one:
  "Option.bind (emm_proc_attach_request example_env accepted_state rebind_request)
     (\<lambda>r. Some (fst r, trace (snd r), ctx_coll_ue_id (snd r) 7, ctx_coll_ue_id (snd r) 12,
                 ctx_heap (snd r) 4096,
                 map_option is_dynamic (ctx_heap (snd r) 20480),
                 map_option guti (ctx_heap (snd r) 20480),
                 map_option imsi (ctx_heap (snd r) 20480)))
   = Some (RETURNok,
       [MME_API_NOTIFY_UE_ID_CHANGED 7 12,
        EMM_DATA_CONTEXT_REMOVE 4096,
        EMM_DATA_CONTEXT_ADD 4096,
        EMM_DATA_CONTEXT_ADD 20480,
        MME_API_IDENTIFY_GUTI example_guti,
        EMM_PROC_IDENTIFICATION 12],
       None, Some 4096,
       Some (accepted_ctx\<lparr>ueid := 12\<rparr>),
       Some True, Some (Some example_guti), Some None)
   \<and> ctx_heap accepted_state 20480 = None
   \<and> imsi accepted_ctx = Some example_imsi"
  apply (subst emm_proc_attach_request.simps)
  apply (simp add: attach_defs example_defs rebind_request_def)
  done

text \<open>
  \<open>_emm_attach_update\<close> returns RETURNerror for every request without GUTI and without
  IMSI (lines 1859 to 1916), whatever its type and its IMEI.
\<close>

lemma update_without_guti_and_imsi_fails:
  assumes "rq_guti r = None" "rq_imsi r = None" "ctx_heap s a = Some c"
  shows "map_option fst (emm_attach_update env s a r) = Some RETURNerror"
  using assms
  by (simp add: emm_attach_update_def Let_def update_guti_no_identity)

text \<open>
  The IMEI branch of \<open>_emm_attach_identify\<close> (lines 1067 to 1077) is what the
  specification describes, for a context that holds an IMEI and neither IMSI nor GUTI:
  \<open>mme_api_identify_imei\<close> is called and no GUTI reallocation is asked for.
\<close>

lemma identify_imei_branch:
  assumes "ctx_heap s a = Some c" "imsi c = None" "guti c = None" "imei c = Some e" "is_emergency c"
  shows "emm_attach_identify env s a =
           emm_attach_identified env a (fst (mme_api_identify_imei env e)) False
             (log_event (MME_API_IDENTIFY_IMEI e)
                (s\<lparr>ctx_heap := (ctx_heap s)(a \<mapsto>
                     (if fst (mme_api_identify_imei env e) \<noteq> RETURNok
                      then c\<lparr>vector := snd (mme_api_identify_imei env e),
                             emm_cause := EMM_CAUSE_IMEI_NOT_ACCEPTED\<rparr>
                      else c\<lparr>vector := snd (mme_api_identify_imei env e)\<rparr>))\<rparr>))"
  using assms
  by (simp add: emm_attach_identify_def Let_def)

text \<open>
  Claim C9 fails in the code: no Attach Request reaches that branch. Emergency attach is
  configured, no context exists, and UE 7 sends an emergency Attach Request with an IMEI,
  no IMSI and no GUTI. The update of the new context at address 20480 fails, the request
  is rejected with the cause ILLEGAL_UE and the context is released:
  \<open>_emm_attach_identify\<close> is not called and \<open>mme_api_identify_imei\<close> is absent from the
  trace.
\<close>

theorem emergency_imei_request_is_rejected:
  "Option.bind
     (emm_proc_attach_request (example_env\<lparr>conf_features := MME_API_EMERGENCY_ATTACH\<rparr>)
        empty_state imei_request)
     (\<lambda>r. Some (fst r, trace (snd r), ctx_coll_ue_id (snd r) 7))
   = Some (RETURNok,
       [EMM_DATA_CONTEXT_ADD 20480,
        EMM_SAP_SEND (EMMAS_ESTABLISH_REJ 7 EMM_CAUSE_ILLEGAL_UE os_empty None),
        EMM_DATA_CONTEXT_REMOVE 20480,
        EMM_SAP_SEND (EMMREG_PROC_ABORT 7 (Some 20480))],
       None)"
  apply (subst emm_proc_attach_request.simps)
  apply (simp add: attach_defs example_defs imei_request_def)
  done

section \<open>The attached flag\<close>

text \<open>
  With quiet peers no function of the attach procedure sets \<open>is_attached\<close>: each leaves
  the flag of every context as it was, or clears it, or releases the context.
\<close>

lemma att_le_refl [simp]: "att_le m m"
  by (simp add: att_le_def)

lemma att_le_trans: "att_le m m1 \<Longrightarrow> att_le m1 m2 \<Longrightarrow> att_le m m2"
  by (simp add: att_le_def)

lemma att_le_del [simp]: "att_le m (m(a := None))"
  by (simp add: att_le_def)

lemma attm_upd [simp]: "attm (h(a \<mapsto> c)) = (attm h)(a \<mapsto> is_attached c)"
  by (auto simp: attm_def)

lemma attm_del [simp]: "attm (h(a := None)) = (attm h)(a := None)"
  by (auto simp: attm_def)

lemma attm_same [simp]: "h a = Some c \<Longrightarrow> (attm h)(a \<mapsto> is_attached c) = attm h"
  by (auto simp: attm_def)

lemma release_att:
  assumes "peers_quiet env" "emm_attach_release env s p = Some (rc, s')"
  shows "att_sub s s'"
  using assms
  by (auto simp: emm_attach_release_def release_ctx_store_def emm_data_context_remove_def
      quiet_emm_sap_send log_event_def Let_def att_sub_def
      split: option.splits if_splits)

lemma reject_att:
  assumes quiet: "peers_quiet env" and run: "emm_attach_reject env s p = Some (rc, s')"
  shows "att_sub s s'"
  using assms
  by (auto simp: emm_attach_reject_def load_ctx_def store_ctx_def
      quiet_emm_sap_send log_event_def Let_def att_sub_def
      split: option.splits if_splits ctx_ptr.splits dest!: release_att [OF quiet])


lemma failed_att:
  assumes quiet: "peers_quiet env" and run: "emm_attach_failed env a r = Some (rc, s')"
  shows "att_sub (snd r) s'"
  using assms
  by (auto simp: emm_attach_failed_def att_sub_def
      split: option.splits if_splits dest!: reject_att [OF quiet])

lemma accept_att:
  assumes quiet: "peers_quiet env" and run: "emm_attach_accept env s p d = Some (rc, s')"
  shows "att_sub s s'"
  using assms
  by (auto simp: emm_attach_accept_def quiet_emm_sap_send log_event_def Let_def att_sub_def
      split: option.splits if_splits Option.bind_splits)

lemma accepted_att:
  assumes quiet: "peers_quiet env" and run: "emm_attach_accepted env s a d out = Some (rc, s')"
  shows "att_sub s s'"
  using assms
  by (auto simp: emm_attach_accepted_def quiet_emm_sap_send Let_def att_sub_def
      split: option.splits if_splits Option.bind_splits dest!: accept_att [OF quiet])


lemma attach_att:
  assumes quiet: "peers_quiet env" and run: "emm_attach env s a = Some (rc, s')"
  shows "att_sub s s'"
  using assms
  by (auto simp: emm_attach_def quiet_esm_sap_send emm_proc_common_initialize_def log_event_def
      Let_def att_sub_def
      split: option.splits if_splits Option.bind_splits
      dest!: accepted_att [OF quiet] failed_att [OF quiet] reject_att [OF quiet]
      elim: att_le_trans)

lemma security_att:
  assumes quiet: "peers_quiet env" and run: "emm_attach_security env s a = Some (rc, s')"
  shows "att_sub s s'"
  using assms
  by (auto simp: emm_attach_security_def quiet_common_proc Let_def att_sub_def
      split: option.splits if_splits Option.bind_splits
      dest!: reject_att [OF quiet])


lemma identified_att:
  assumes quiet: "peers_quiet env" and run: "emm_attach_identified env a rc0 gr s = Some (rc, s')"
  shows "att_sub s s'"
  using assms
  by (auto simp: emm_attach_identified_def quiet_common_proc log_event_def Let_def att_sub_def
      split: option.splits if_splits Option.bind_splits
      dest!: reject_att [OF quiet] attach_att [OF quiet] security_att [OF quiet]
      elim: att_le_trans)

lemma identify_att:
  assumes quiet: "peers_quiet env" and run: "emm_attach_identify env s a = Some (rc, s')"
  shows "att_sub s s'"
  using assms
  by (auto simp: emm_attach_identify_def quiet_common_proc log_event_def Let_def att_sub_def
      split: option.splits if_splits Option.bind_splits
      dest!: reject_att [OF quiet] identified_att [OF quiet])



lemma update_guti_att:
  "is_attached (fst (snd (emm_attach_update_guti env a r c idx))) = is_attached c"
  by (simp add: emm_attach_update_guti_def Let_def split: option.split)

lemma update_rest_att:
  "is_attached (snd (emm_attach_update_rest env r c)) \<longrightarrow> is_attached c"
  by (simp add: emm_attach_update_rest_def Let_def split: option.split)

lemma update_att:
  assumes "emm_attach_update env s a r = Some (rc, s')"
  shows "att_sub s s'"
proof -
  obtain c where c: "ctx_heap s a = Some c"
    using assms by (auto simp: emm_attach_update_def split: option.splits)
  define X where "X = the (ctx_heap s' a)"
  have h: "ctx_heap s' = (ctx_heap s)(a \<mapsto> X)"
    using assms c by (auto simp: X_def emm_attach_update_def Let_def split: if_splits)
  have le: "is_attached X \<longrightarrow> is_attached c"
    using assms c
    by (auto simp: X_def emm_attach_update_def Let_def update_guti_att split: if_splits
        dest!: update_rest_att [rule_format])
  show ?thesis
    unfolding att_sub_def h using c le by (auto simp: att_le_def attm_def)
qed

lemma update_clears:
  assumes "emm_attach_update env s a r = Some (RETURNok, s')"
  shows "attm (ctx_heap s') a = Some False"
proof -
  obtain c where c: "ctx_heap s a = Some c"
    using assms by (auto simp: emm_attach_update_def split: option.splits)
  show ?thesis
    using assms c update_rest_ok [of env r]
    by (auto simp: emm_attach_update_def Let_def split: if_splits)
qed

lemma rebind_att:
  assumes "attach_request_rebind s r = Some (t, s')"
  shows "att_sub s s'"
  using assms
  by (auto simp: attach_request_rebind_def emm_data_context_remove_def emm_data_context_add_def
      log_event_def att_sub_def split: option.splits if_splits Option.bind_splits)

lemma proceed_att:
  assumes quiet: "peers_quiet env" and run: "attach_request_proceed env s r a = Some (rc, s')"
  shows "att_sub s s'"
  using assms
  by (auto simp: attach_request_proceed_def Let_def att_sub_def
      split: option.splits if_splits Option.bind_splits
      dest!: reject_att [OF quiet] identify_att [OF quiet] update_att
      elim: att_le_trans)


lemma att_le_new: "att_le (m(a \<mapsto> False)) m' \<Longrightarrow> att_le m m'"
  by (auto simp: att_le_def split: if_splits)

lemma new_att:
  assumes quiet: "peers_quiet env" and run: "attach_request_new env s r p = Some (rc, s')"
  shows "att_sub s s'"
  using assms
  by (auto simp: attach_request_new_def emm_data_context_add_def log_event_def new_emm_ctx_def
      zero_ctx_def Let_def att_sub_def
      split: option.splits if_splits Option.bind_splits
      dest!: reject_att [OF quiet] proceed_att [OF quiet] rebind_att att_le_new
      elim: att_le_trans)


lemma request_att:
  assumes run: "emm_proc_attach_request env s r = Some y"
  shows "peers_quiet env \<longrightarrow> att_sub s (snd y)"
proof (rule emm_proc_attach_request.raw_induct
    [where P = "\<lambda>env s r y. peers_quiet env \<longrightarrow> att_sub s (snd y)", OF _ run], goal_cases)
  case (1 f env s r y)
  show ?case
  proof
    assume quiet: "peers_quiet env"
    have ih: "\<And>s1 y1. f env s1 r = Some y1 \<Longrightarrow> att_sub s1 (snd y1)"
      using 1(1) quiet by blast
    show "att_sub s (snd y)"
      using 1(2) quiet
      by (cases y)
         (auto simp: ctx_of_ueid_def emm_data_context_get_def quiet_emm_sap_send att_sub_def
          split: option.splits if_splits
          dest!: reject_att [OF quiet] new_att [OF quiet] ih)
  qed
qed


lemma complete_att:
  assumes quiet: "peers_quiet env"
    and adm: "admissible env u"
    and found: "ctx_coll_ue_id s u = Some a"
    and ctx: "ctx_heap s a = Some c"
    and c1: "c1 = c\<lparr>T3450 := (T3450 c)\<lparr>timer_id := NAS_TIMER_INACTIVE_ID\<rparr>,
                    guti_is_new := False, old_guti := None\<rparr>"
    and sx: "sx = s\<lparr>data_heap := (case common_args s u of None \<Rightarrow> data_heap s
                                   | Some d \<Rightarrow> (data_heap s)(d := None)),
                    ctx_heap := (ctx_heap s)(a \<mapsto> c1),
                    trace := trace s @ [NAS_TIMER_STOP (timer_id (T3450 c))]\<rparr>"
    and sap: "sap = \<lparr>esm_primitive = ESM_DEFAULT_EPS_BEARER_CONTEXT_ACTIVATE_CNF, esm_ueid = u,
                     esm_ctx = Some a, esm_recv = Some msg\<rparr>"
    and run: "emm_proc_attach_complete env s u msg = Some (rc, s')"
  shows "attm (ctx_heap s') =
           (attm (ctx_heap s))(a \<mapsto> is_attached c \<or>
              esm_sap_rc env sap sx \<noteq> RETURNerror \<and> esm_sap_err env sap sx = ESM_SAP_SUCCESS)"
proof (cases "common_args s u")
  case None
  then show ?thesis
    using quiet adm found ctx c1 sx sap run
    by (auto simp: emm_proc_attach_complete_def emm_proc_common_get_args_def admissible_def Let_def
        quiet_emm_sap_send quiet_esm_sap_send nas_timer_stop_def split: if_splits)
next
  case (Some d)
  then obtain dat where "data_heap s d = Some dat"
    using run by (auto simp: emm_proc_attach_complete_def emm_proc_common_get_args_def
        split: option.splits)
  then show ?thesis
    using Some quiet adm found ctx c1 sx sap run
    by (auto simp: emm_proc_attach_complete_def emm_proc_common_get_args_def admissible_def Let_def
        quiet_emm_sap_send quiet_esm_sap_send nas_timer_stop_def split: if_splits)
qed

text \<open>
  Claim C10, as the code has it. Every run of \<open>_emm_attach_update\<close> that returns RETURNok
  leaves \<open>is_attached\<close> FALSE in its context. With quiet peers: the flag is still not set
  when the identification that follows the update returns; no call of
  \<open>emm_proc_attach_request\<close>, whatever its outcome, sets the flag of any context (a
  request that is rejected before the update leaves it as it was); and
  \<open>emm_proc_attach_complete\<close>, for an admissible UE identifier with a context, leaves the
  flag set exactly if it was set before or the ESM has confirmed with SUCCESS, and
  touches the flag of no other context.
\<close>

theorem is_attached_cleared_by_update_set_by_complete:
  assumes quiet: "peers_quiet env"
  shows "(emm_attach_update env s a r = Some (RETURNok, s1) \<longrightarrow>
            attm (ctx_heap s1) a = Some False \<and>
            (emm_attach_identify env s1 a = Some (rc, s2) \<longrightarrow> attm (ctx_heap s2) a \<noteq> Some True)) \<and>
         (emm_proc_attach_request env t q = Some (rc', t') \<longrightarrow> att_sub t t') \<and>
         (admissible env u \<and> ctx_coll_ue_id w u = Some b \<and> ctx_heap w b = Some c \<and>
          emm_proc_attach_complete env w u msg = Some (rc'', w') \<and>
          c1 = c\<lparr>T3450 := (T3450 c)\<lparr>timer_id := NAS_TIMER_INACTIVE_ID\<rparr>,
                  guti_is_new := False, old_guti := None\<rparr> \<and>
          sx = w\<lparr>data_heap := (case common_args w u of None \<Rightarrow> data_heap w
                                 | Some d \<Rightarrow> (data_heap w)(d := None)),
                  ctx_heap := (ctx_heap w)(b \<mapsto> c1),
                  trace := trace w @ [NAS_TIMER_STOP (timer_id (T3450 c))]\<rparr> \<and>
          sap = \<lparr>esm_primitive = ESM_DEFAULT_EPS_BEARER_CONTEXT_ACTIVATE_CNF, esm_ueid = u,
                 esm_ctx = Some b, esm_recv = Some msg\<rparr> \<longrightarrow>
            attm (ctx_heap w') =
              (attm (ctx_heap w))(b \<mapsto> is_attached c \<or>
                 esm_sap_rc env sap sx \<noteq> RETURNerror \<and> esm_sap_err env sap sx = ESM_SAP_SUCCESS))"
proof (intro conjI impI)
  assume up: "emm_attach_update env s a r = Some (RETURNok, s1)"
  show off: "attm (ctx_heap s1) a = Some False"
    by (rule update_clears [OF up])
  assume "emm_attach_identify env s1 a = Some (rc, s2)"
  from identify_att [OF quiet this] off
  show "attm (ctx_heap s2) a \<noteq> Some True"
    by (auto simp: att_sub_def att_le_def)
next
  assume "emm_proc_attach_request env t q = Some (rc', t')"
  from request_att [OF this] quiet show "att_sub t t'"
    by simp
next
  assume h: "admissible env u \<and> ctx_coll_ue_id w u = Some b \<and> ctx_heap w b = Some c \<and>
          emm_proc_attach_complete env w u msg = Some (rc'', w') \<and>
          c1 = c\<lparr>T3450 := (T3450 c)\<lparr>timer_id := NAS_TIMER_INACTIVE_ID\<rparr>,
                  guti_is_new := False, old_guti := None\<rparr> \<and>
          sx = w\<lparr>data_heap := (case common_args w u of None \<Rightarrow> data_heap w
                                 | Some d \<Rightarrow> (data_heap w)(d := None)),
                  ctx_heap := (ctx_heap w)(b \<mapsto> c1),
                  trace := trace w @ [NAS_TIMER_STOP (timer_id (T3450 c))]\<rparr> \<and>
          sap = \<lparr>esm_primitive = ESM_DEFAULT_EPS_BEARER_CONTEXT_ACTIVATE_CNF, esm_ueid = u,
                 esm_ctx = Some b, esm_recv = Some msg\<rparr>"
  show "attm (ctx_heap w') =
              (attm (ctx_heap w))(b \<mapsto> is_attached c \<or>
                 esm_sap_rc env sap sx \<noteq> RETURNerror \<and> esm_sap_err env sap sx = ESM_SAP_SUCCESS)"
    by (rule complete_att [OF quiet]) (use h in blast)+
qed

text \<open>
  UE 7 is attached and its context is updated with \<open>example_request\<close>: the flag is
  cleared, and still clear after the identification. The first request of UE 7 in the
  empty store attaches no context. The attach complete of UE 7 after its ATTACH
  ACCEPT sets the flag.
\<close>

theorem is_attached_cleared_by_update_set_by_complete_witness:
  "peers_quiet example_env \<and>
   attm (ctx_heap attached_state) 4096 = Some True \<and>
   emm_attach_update example_env attached_state 4096 example_request =
     Some (RETURNok,
       attached_state\<lparr>ctx_heap := [4096 \<mapsto> example_ctx\<lparr>emm_fsm_status := EMM_REGISTERED\<rparr>]\<rparr>) \<and>
   attm (ctx_heap (attached_state\<lparr>ctx_heap := [4096 \<mapsto> example_ctx\<lparr>emm_fsm_status := EMM_REGISTERED\<rparr>]\<rparr>))
     4096 = Some False \<and>
   map_option fst (emm_attach_identify example_env
      (attached_state\<lparr>ctx_heap := [4096 \<mapsto> example_ctx\<lparr>emm_fsm_status := EMM_REGISTERED\<rparr>]\<rparr>) 4096)
     = Some RETURNok \<and>
   attm (ctx_heap (snd (the (emm_attach_identify example_env
      (attached_state\<lparr>ctx_heap := [4096 \<mapsto> example_ctx\<lparr>emm_fsm_status := EMM_REGISTERED\<rparr>]\<rparr>) 4096))))
     4096 \<noteq> Some True \<and>
   map_option fst (emm_proc_attach_request example_env empty_state example_request) = Some RETURNok \<and>
   att_sub empty_state (snd (the (emm_proc_attach_request example_env empty_state example_request))) \<and>
   map_option fst (emm_proc_attach_complete example_env accepted_state 7 example_pdu) = Some RETURNok \<and>
   attm (ctx_heap (snd (the (emm_proc_attach_complete example_env accepted_state 7 example_pdu))))
     = [4096 \<mapsto> True]"
proof -
  define U where "U = attached_state\<lparr>ctx_heap := [4096 \<mapsto> example_ctx\<lparr>emm_fsm_status := EMM_REGISTERED\<rparr>]\<rparr>"
  define I where "I = emm_attach_identify example_env U 4096"
  define R where "R = emm_proc_attach_request example_env empty_state example_request"
  define C where "C = emm_proc_attach_complete example_env accepted_state 7 example_pdu"
  have before: "attm (ctx_heap attached_state) 4096 = Some True"
    by (simp add: attm_def attached_state_def)
  have up: "emm_attach_update example_env attached_state 4096 example_request = Some (RETURNok, U)"
    by (simp add: U_def attach_defs example_defs attached_state_def example_guti_def example_imsi_def)
  have idn: "map_option fst I = Some RETURNok"
    unfolding I_def U_def
    by (simp add: attach_defs example_defs attached_state_def emm_attach_def emm_attach_accepted_def
        emm_attach_failed_def emm_proc_common_initialize_def example_security_def zero_attach_data_def)
  have rq: "map_option fst R = Some RETURNok"
    unfolding R_def
    apply (subst emm_proc_attach_request.simps)
    apply (simp add: attach_defs example_defs example_imsi_def)
    done
  have cp: "map_option fst C = Some RETURNok"
    unfolding C_def
    by (simp add: emm_proc_attach_complete_def emm_proc_common_get_args_def Let_def
        nas_timer_stop_def emm_sap_send_def esm_sap_send_def example_defs)
  have I: "emm_attach_identify example_env U 4096 = Some (fst (the I), snd (the I))"
    using idn by (cases I) (auto simp: I_def)
  have R: "emm_proc_attach_request example_env empty_state example_request
             = Some (fst (the R), snd (the R))"
    using rq by (cases R) (auto simp: R_def)
  have C: "emm_proc_attach_complete example_env accepted_state 7 example_pdu
             = Some (fst (the C), snd (the C))"
    using cp by (cases C) (auto simp: C_def)
  have adm: "admissible example_env 7"
    by (simp add: admissible_def example_env_def)
  have found: "ctx_coll_ue_id accepted_state 7 = Some 4096"
    and ctx: "ctx_heap accepted_state 4096 = Some accepted_ctx"
    by (simp_all add: accepted_state_def)
  note T = is_attached_cleared_by_update_set_by_complete [OF example_env_quiet,
      where s = attached_state and a = 4096 and r = example_request and ?s1.0 = U
        and rc = "fst (the I)" and ?s2.0 = "snd (the I)"
        and t = empty_state and q = example_request and rc' = "fst (the R)" and t' = "snd (the R)"
        and u = 7 and w = accepted_state and b = 4096 and c = accepted_ctx and msg = example_pdu
        and rc'' = "fst (the C)" and w' = "snd (the C)"]
  note T1 = T [THEN conjunct1, rule_format, OF up]
  note T1a = T1 [THEN conjunct1]
  note T1b = T1 [THEN conjunct2, rule_format, OF I]
  note T2 = T [THEN conjunct2, THEN conjunct1, rule_format, OF R]
  note T3 = T [THEN conjunct2, THEN conjunct2, rule_format,
      OF conjI [OF adm conjI [OF found conjI [OF ctx conjI [OF C conjI [OF refl conjI [OF refl refl]]]]]]]
  have after: "attm (ctx_heap (snd (the C))) = [4096 \<mapsto> True]"
    unfolding T3
    by (simp add: attm_def example_defs fun_eq_iff)
  show ?thesis
    using example_env_quiet before up T1a T1b idn rq T2 cp after
    unfolding U_def I_def R_def C_def by simp
qed

text \<open>
  Claim C10 as stated fails for a request that is rejected before the update. UE 7 is
  attached and emergency attach is not configured; its emergency Attach Request differs
  from the context, so it is no duplicate, and it is rejected with the cause
  IMEI_NOT_ACCEPTED: the context stays in the store with \<open>is_attached\<close> set.
\<close>

theorem rejected_emergency_request_leaves_context_attached:
  "emm_proc_attach_request example_env attached_state (example_request\<lparr>rq_type := EMM_ATTACH_TYPE_EMERGENCY\<rparr>)
   = Some (RETURNok,
       attached_state\<lparr>trace :=
         [EMM_SAP_SEND (EMMAS_ESTABLISH_REJ 7 EMM_CAUSE_IMEI_NOT_ACCEPTED os_empty None)]\<rparr>)
   \<and> ctx_coll_ue_id attached_state 7 = Some 4096
   \<and> map_option is_attached (ctx_heap attached_state 4096) = Some True
   \<and> map_option (\<lambda>c. emm_attach_have_changed c (example_request\<lparr>rq_type := EMM_ATTACH_TYPE_EMERGENCY\<rparr>))
        (ctx_heap attached_state 4096) = Some (Some True)"
  apply (subst emm_proc_attach_request.simps)
  apply (simp add: attach_defs example_defs attached_state_def emm_attach_have_changed_def)
  done

end
